theory Spec2Isabelle
  imports Main "HOL-Library.Word" "HOL-Library.AList"
begin

section \<open>JavaScript strings\<close>

text \<open>
  A JavaScript string is a sequence of UTF-16 code units. The model covers the strings
  whose code units are below 256: one \<^typ>\<open>char\<close> stands for one code unit, so
  \<open>length\<close> is the \<^verbatim>\<open>.length\<close> of the source. In that range the white space of
  \<^verbatim>\<open>/\s/\<close> and of \<^verbatim>\<open>trim()\<close> is TAB, LF, VT, FF, CR, SPACE and NBSP (0xA0), and
  \<^verbatim>\<open>toLowerCase()\<close> maps A-Z and the upper-case letters 0xC0-0xDE (0xD7 apart) to the
  code unit 32 above.
\<close>

definition is_space :: "char \<Rightarrow> bool" where
  "is_space c =
     (c \<in> set [CHR 0x09, CHR 0x0A, CHR 0x0B, CHR 0x0C, CHR 0x0D, CHR 0x20, CHR 0xA0])"

definition lower_char :: "char \<Rightarrow> char" where
  "lower_char c =
     (let n = (of_char c :: int)
      in if (65 \<le> n \<and> n \<le> 90) \<or> (192 \<le> n \<and> n \<le> 222 \<and> n \<noteq> 215)
         then char_of (n + 32) else c)"

definition toLowerCase :: "string \<Rightarrow> string" where
  "toLowerCase s = map lower_char s"

definition trim :: "string \<Rightarrow> string" where
  "trim s = rev (dropWhile is_space (rev (dropWhile is_space s)))"

text \<open>
  \<^verbatim>\<open>s.split(/\s+/)\<close>: every maximal run of white space is one separator. A run at the
  start or at the end of the string leaves an empty piece there, and the empty string
  splits into one empty piece. The first argument is the piece read so far.
\<close>

function split_ws_from :: "string \<Rightarrow> string \<Rightarrow> string list" where
  "split_ws_from cur [] = [cur]"
| "split_ws_from cur (c # cs) =
     (if is_space c then cur # split_ws_from [] (dropWhile is_space cs)
      else split_ws_from (cur @ [c]) cs)"
  by pat_completeness auto
termination
  by (relation "measure (\<lambda>(cur, s). length s)")
     (auto simp: length_dropWhile_le less_Suc_eq_le)

definition split_ws :: "string \<Rightarrow> string list" where
  "split_ws s = split_ws_from [] s"

text \<open>\<^verbatim>\<open>s.split('\n')\<close>, and \<^verbatim>\<open>s.split('/')\<close>: every occurrence of the character separates.\<close>

fun split_char_from :: "char \<Rightarrow> string \<Rightarrow> string \<Rightarrow> string list" where
  "split_char_from d cur [] = [cur]"
| "split_char_from d cur (c # cs) =
     (if c = d then cur # split_char_from d [] cs else split_char_from d (cur @ [c]) cs)"

definition split_char :: "char \<Rightarrow> string \<Rightarrow> string list" where
  "split_char d s = split_char_from d [] s"

text \<open>\<^verbatim>\<open>s.indexOf(c)\<close>; \<open>None\<close> is the source's \<open>-1\<close>.\<close>

fun indexOf :: "char \<Rightarrow> string \<Rightarrow> nat option" where
  "indexOf d [] = None"
| "indexOf d (c # cs) =
     (if c = d then Some 0 else map_option Suc (indexOf d cs))"

text \<open>\<^verbatim>\<open>s.substring(a, b)\<close> for \<open>a \<le> b\<close>, and \<^verbatim>\<open>s.substring(a)\<close>.\<close>

definition substring :: "string \<Rightarrow> nat \<Rightarrow> nat \<Rightarrow> string" where
  "substring s a b = take (b - a) (drop a s)"

definition substring_from :: "string \<Rightarrow> nat \<Rightarrow> string" where
  "substring_from s a = drop a s"

text \<open>The four global replacements both parsers apply to the text of a file.\<close>

definition replace_tabs :: "string \<Rightarrow> string" where
  "replace_tabs s = map (\<lambda>c. if c = CHR 0x09 then CHR '' '' else c) s"

fun replace_crlf :: "string \<Rightarrow> string" where
  "replace_crlf (c # d # cs) =
     (if c = CHR 0x0D \<and> d = CHR 0x0A then CHR 0x0A # replace_crlf cs
      else c # replace_crlf (d # cs))"
| "replace_crlf cs = cs"

definition replace_cr :: "string \<Rightarrow> string" where
  "replace_cr s = map (\<lambda>c. if c = CHR 0x0D then CHR 0x0A else c) s"

fun remove_continuations :: "string \<Rightarrow> string" where
  "remove_continuations (c # d # cs) =
     (if c = CHR 0x5C \<and> d = CHR 0x0A then remove_continuations cs
      else c # remove_continuations (d # cs))"
| "remove_continuations cs = cs"

text \<open>
  \<^verbatim>\<open>if (text.charCodeAt(0) === 0xfeff) text = text.substring(1)\<close>. No code unit of the
  strings modelled here is 0xFEFF, so the test is written as in the source and never holds.
\<close>

definition strip_bom :: "string \<Rightarrow> string" where
  "strip_bom text =
     (case text of [] \<Rightarrow> text
      | c # cs \<Rightarrow> if (of_char c :: int) = 0xfeff then substring_from text 1 else text)"

definition normalize_text :: "string \<Rightarrow> string" where
  "normalize_text text =
     remove_continuations (replace_cr (replace_crlf (replace_tabs (strip_bom text))))"

text \<open>The truth value of a string or null used as a condition: null and \<open>''\<close> are false.\<close>

fun truthy :: "string option \<Rightarrow> bool" where
  "truthy None = False"
| "truthy (Some s) = (s \<noteq> [])"

section \<open>Errors and stateful calls\<close>

text \<open>
  The exceptions the two classes raise themselves, and \<open>LibraryError\<close> for one raised
  inside a collaborator (the address library, the file system).
\<close>

datatype error =
    InvalidAddress | InvalidDomain | SearchListTooLarge | SortListTooLarge
  | NoServersAvailable | InvalidName | InvalidHostname | LibraryError

text \<open>
  A method mutates \<open>this\<close> and either returns or throws; the object keeps what was
  written before the throw. So a method is a function from the state to the exception
  raised, if any, and the state left behind.
\<close>

type_synonym 's call = "'s \<Rightarrow> error option \<times> 's"

definition ok :: "'s call" where
  "ok s = (None, s)"

definition throw :: "error \<Rightarrow> 's call" where
  "throw e s = (Some e, s)"

definition seq :: "'s call \<Rightarrow> 's call \<Rightarrow> 's call" where
  "seq f g s = (case f s of (None, s') \<Rightarrow> g s' | (Some e, s') \<Rightarrow> (Some e, s'))"

definition try_catch :: "'s call \<Rightarrow> 's call \<Rightarrow> 's call" where
  "try_catch body handler s =
     (case body s of (None, s') \<Rightarrow> (None, s') | (Some e, s') \<Rightarrow> handler s')"

fun for_each :: "('a \<Rightarrow> 's call) \<Rightarrow> 'a list \<Rightarrow> 's call" where
  "for_each f [] s = (None, s)"
| "for_each f (x # xs) s =
     (case f x s of (None, s') \<Rightarrow> for_each f xs s' | (Some e, s') \<Rightarrow> (Some e, s'))"

section \<open>Collaborators outside the two classes\<close>

type_synonym buffer = "8 word list"

text \<open>What \<^verbatim>\<open>IP.fromHost\<close> of the address library returns.\<close>

record Address =
  type :: nat
  host :: string
  port :: nat
  hostname :: string
  key :: "buffer option"

text \<open>
  The helpers of \<^verbatim>\<open>./util\<close> the two classes call. Their code is not part of the
  sources at hand, so they are parameters: \<open>isName\<close> is the name-syntax check,
  \<open>fqdn\<close> the normalization to a name with a trailing dot, and \<open>parseU8\<close> the numeric
  parser, \<open>None\<close> where it throws.
\<close>

record Util =
  isName :: "string \<Rightarrow> bool"
  fqdn :: "string \<Rightarrow> string"
  parseU8 :: "string \<Rightarrow> nat option"

text \<open>
  The address library (\<^verbatim>\<open>binet\<close>) and \<^verbatim>\<open>encoding.reverse\<close>, parameters as well;
  \<open>None\<close> is a call that throws.
\<close>

record IPlib =
  fromHost :: "string \<Rightarrow> nat \<Rightarrow> Address option"
  normalize :: "string \<Rightarrow> string option"
  toBuffer :: "string \<Rightarrow> buffer option"
  toString :: "buffer \<Rightarrow> string"
  isIPv4 :: "buffer \<Rightarrow> bool"
  reverse :: "string \<Rightarrow> string option"

text \<open>The process and the file system: \<open>readFile\<close> is \<open>None\<close> where the read throws.\<close>

record Env =
  platform :: string
  LOCALDOMAIN :: "string option"
  RES_OPTIONS :: "string option"
  readFile :: "string \<Rightarrow> string option"

section \<open>ResolvConf\<close>

record SortItem =
  ip :: string
  mask :: "string option"

record ResolvConf =
  ns4 :: "Address list"
  ns6 :: "Address list"
  keys :: "string \<rightharpoonup> buffer"
  domain :: "string option"
  search :: "string list option"
  sortlist :: "SortItem list"
  debug :: bool
  dots :: nat
  timeout :: nat
  attempts :: nat
  rotate :: bool
  checkNames :: bool
  inet6 :: bool
  byteString :: bool
  dotInt :: bool
  edns :: bool
  singleRequest :: bool
  singleRequestReopen :: bool
  tldQuery :: bool
  forceTCP :: bool

definition LOCAL_NS :: "string list" where
  "LOCAL_NS = [''127.0.0.1'', ''::1'']"

definition OPENDNS_NS :: "string list" where
  "OPENDNS_NS = [''208.67.222.222'', ''208.67.220.220'', ''208.67.222.220'',
     ''208.67.220.222'', ''2620:0:ccc::2'', ''2620:0:ccd::2'']"

definition GOOGLE_NS :: "string list" where
  "GOOGLE_NS = [''8.8.8.8'', ''8.8.4.4'', ''2001:4860:4860::8888'', ''2001:4860:4860::8844'']"

text \<open>The constructor.\<close>

definition new_ResolvConf :: ResolvConf where
  "new_ResolvConf =
     \<lparr>ns4 = [], ns6 = [], keys = Map.empty, domain = None, search = None, sortlist = [],
      debug = False, dots = 1, timeout = 5, attempts = 2, rotate = False, checkNames = True,
      inet6 = False, byteString = False, dotInt = False, edns = False,
      singleRequest = False, singleRequestReopen = False, tldQuery = True,
      forceTCP = False\<rparr>"

text \<open>\<open>inject this obj\<close>: every field of \<open>this\<close> is overwritten from \<open>obj\<close>.\<close>

definition inject :: "ResolvConf \<Rightarrow> ResolvConf \<Rightarrow> ResolvConf" where
  "inject this obj =
     this\<lparr>ns4 := ns4 obj, ns6 := ns6 obj, keys := keys obj, domain := domain obj,
       search := search obj, sortlist := sortlist obj, debug := debug obj, dots := dots obj,
       timeout := timeout obj, attempts := attempts obj, rotate := rotate obj,
       checkNames := checkNames obj, inet6 := inet6 obj, byteString := byteString obj,
       dotInt := dotInt obj, edns := edns obj, singleRequest := singleRequest obj,
       singleRequestReopen := singleRequestReopen obj, tldQuery := tldQuery obj,
       forceTCP := forceTCP obj\<rparr>"

definition clone :: "ResolvConf \<Rightarrow> ResolvConf" where
  "clone this = inject new_ResolvConf this"

definition clear :: "ResolvConf \<Rightarrow> ResolvConf" where
  "clear this =
     this\<lparr>ns4 := [], ns6 := [], keys := Map.empty, domain := None, search := None,
       sortlist := [], debug := False, dots := 1, timeout := 5, attempts := 2,
       rotate := False, checkNames := True, inet6 := False, byteString := False,
       dotInt := False, edns := False, singleRequest := False,
       singleRequestReopen := False, tldQuery := True, forceTCP := False\<rparr>"

definition getSystem :: "Env \<Rightarrow> string option" where
  "getSystem E = (if platform E = ''win32'' then None else Some ''/etc/resolv.conf'')"

definition getServers :: "ResolvConf \<Rightarrow> string list" where
  "getServers this = map hostname (ns4 this) @ map hostname (ns6 this)"

definition clearServers :: "ResolvConf \<Rightarrow> ResolvConf" where
  "clearServers this = this\<lparr>ns4 := [], ns6 := [], keys := Map.empty\<rparr>"

definition set_key :: "Address \<Rightarrow> ResolvConf \<Rightarrow> ResolvConf" where
  "set_key addr this =
     (case key addr of None \<Rightarrow> this
      | Some k \<Rightarrow> this\<lparr>keys := (keys this)(hostname addr \<mapsto> k)\<rparr>)"

definition addServer :: "IPlib \<Rightarrow> string \<Rightarrow> ResolvConf call" where
  "addServer I server this =
     (case fromHost I server 53 of
        None \<Rightarrow> (Some LibraryError, this)
      | Some addr \<Rightarrow>
          if type addr = 4 then (None, set_key addr (this\<lparr>ns4 := ns4 this @ [addr]\<rparr>))
          else if type addr = 6 then (None, set_key addr (this\<lparr>ns6 := ns6 this @ [addr]\<rparr>))
          else (Some InvalidAddress, this))"

definition setServers :: "IPlib \<Rightarrow> string list \<Rightarrow> ResolvConf call" where
  "setServers I servers this = for_each (addServer I) servers (clearServers this)"

definition setLocal :: "IPlib \<Rightarrow> ResolvConf call" where
  "setLocal I = setServers I LOCAL_NS"

definition setGoogle :: "IPlib \<Rightarrow> ResolvConf call" where
  "setGoogle I = setServers I GOOGLE_NS"

definition setOpenDNS :: "IPlib \<Rightarrow> ResolvConf call" where
  "setOpenDNS I = setServers I OPENDNS_NS"

definition setDefault :: "IPlib \<Rightarrow> ResolvConf call" where
  "setDefault I = setGoogle I"

definition setDomain :: "Util \<Rightarrow> string \<Rightarrow> ResolvConf call" where
  "setDomain U d this =
     (if \<not> isName U d then (Some InvalidDomain, this)
      else (None, this\<lparr>search := None, domain := Some (fqdn U d)\<rparr>))"

text \<open>
  The loop of \<open>setSearch\<close> over the pieces of the list; the second argument is
  \<^verbatim>\<open>this.search\<close>, the array the loop pushes to.
\<close>

fun search_loop :: "Util \<Rightarrow> string list \<Rightarrow> string list \<Rightarrow> error option \<times> string list" where
  "search_loop U acc [] = (None, acc)"
| "search_loop U acc (n # ns) =
     (if \<not> isName U n then search_loop U acc ns
      else if length acc = 6 then (Some SearchListTooLarge, acc)
      else search_loop U (acc @ [fqdn U n]) ns)"

definition setSearch :: "Util \<Rightarrow> string \<Rightarrow> ResolvConf call" where
  "setSearch U list this =
     (if length list > 256 then (Some SearchListTooLarge, this)
      else
        let names = split_ws list;
            this1 = this\<lparr>domain := None, search := Some []\<rparr>;
            (e, found) = search_loop U [] names
        in (e, this1\<lparr>search := Some found\<rparr>))"

text \<open>One pair of \<open>setSort\<close>: \<open>None\<close> is the \<^verbatim>\<open>continue\<close> of the catch block.\<close>

definition sort_pair :: "IPlib \<Rightarrow> string \<Rightarrow> SortItem option" where
  "sort_pair I pair =
     (let items = split_char CHR ''/'' pair;
          ip0 = hd items;
          mask0 = (if length items > 1 then Some (items ! 1) else None)
      in case normalize I ip0 of
           None \<Rightarrow> None
         | Some ip1 \<Rightarrow>
             (case mask0 of
                None \<Rightarrow> Some \<lparr>ip = ip1, mask = None\<rparr>
              | Some m0 \<Rightarrow>
                  if truthy mask0
                  then (case normalize I m0 of
                          None \<Rightarrow> None
                        | Some m \<Rightarrow> Some \<lparr>ip = ip1, mask = Some m\<rparr>)
                  else Some \<lparr>ip = ip1, mask = mask0\<rparr>))"

fun sort_loop :: "IPlib \<Rightarrow> string list \<Rightarrow> ResolvConf call" where
  "sort_loop I [] this = (None, this)"
| "sort_loop I (pair # pairs) this =
     (case sort_pair I pair of
        None \<Rightarrow> sort_loop I pairs this
      | Some item \<Rightarrow>
          if length (sortlist this) = 10 then (Some SortListTooLarge, this)
          else sort_loop I pairs (this\<lparr>sortlist := sortlist this @ [item]\<rparr>))"

definition setSort :: "IPlib \<Rightarrow> string \<Rightarrow> ResolvConf call" where
  "setSort I list this = sort_loop I (split_ws list) this"

definition parseServer :: "IPlib \<Rightarrow> string \<Rightarrow> ResolvConf call" where
  "parseServer I text = try_catch (addServer I (toLowerCase (trim text))) ok"

definition parseDomain :: "Util \<Rightarrow> string \<Rightarrow> ResolvConf call" where
  "parseDomain U text = try_catch (setDomain U (toLowerCase (trim text))) ok"

definition parseSearch :: "Util \<Rightarrow> string \<Rightarrow> ResolvConf call" where
  "parseSearch U text = try_catch (setSearch U (toLowerCase (trim text))) ok"

definition parseSort :: "IPlib \<Rightarrow> string \<Rightarrow> ResolvConf call" where
  "parseSort I text = try_catch (setSort I (toLowerCase (trim text))) ok"

text \<open>
  One turn of the loop of \<open>parseOptions\<close>. \<open>arg\<close> starts as the empty string; a token
  with a colon is cut at the first one, and for a token without a colon the source
  assigns \<^verbatim>\<open>name = arg\<close>. The \<^verbatim>\<open>switch\<close> has no default case.
\<close>

definition parse_option :: "Util \<Rightarrow> string \<Rightarrow> ResolvConf \<Rightarrow> ResolvConf" where
  "parse_option U option this =
     (let arg0 = [];
          (name, arg) =
            (case indexOf CHR '':'' option of
               Some i \<Rightarrow> (substring option 0 i, substring_from option (i + 1))
             | None \<Rightarrow> (arg0, arg0))
      in if name = ''debug'' then this\<lparr>debug := True\<rparr>
         else if name = ''ndots'' then
           (case parseU8 U arg of None \<Rightarrow> this | Some n \<Rightarrow> this\<lparr>dots := min 15 n\<rparr>)
         else if name = ''timeout'' then
           (case parseU8 U arg of None \<Rightarrow> this | Some n \<Rightarrow> this\<lparr>timeout := min 30 n\<rparr>)
         else if name = ''attempts'' then
           (case parseU8 U arg of None \<Rightarrow> this | Some n \<Rightarrow> this\<lparr>attempts := min 5 n\<rparr>)
         else if name = ''rotate'' then this\<lparr>rotate := True\<rparr>
         else if name = ''no-check-names'' then this\<lparr>checkNames := False\<rparr>
         else if name = ''inet6'' then this\<lparr>inet6 := True\<rparr>
         else if name = ''ip6-bytestring'' then this\<lparr>byteString := True\<rparr>
         else if name = ''ip6-dotint'' then this\<lparr>dotInt := True\<rparr>
         else if name = ''no-ip6-dotint'' then this\<lparr>dotInt := False\<rparr>
         else if name = ''edns0'' then this\<lparr>edns := True\<rparr>
         else if name = ''single-request'' then this\<lparr>singleRequest := True\<rparr>
         else if name = ''single-request-reopen'' then this\<lparr>singleRequestReopen := True\<rparr>
         else if name = ''no-tld-query'' then this\<lparr>tldQuery := False\<rparr>
         else if name = ''use-vc'' then this\<lparr>forceTCP := True\<rparr>
         else this)"

fun options_loop :: "Util \<Rightarrow> string list \<Rightarrow> ResolvConf \<Rightarrow> ResolvConf" where
  "options_loop U [] this = this"
| "options_loop U (option # options) this = options_loop U options (parse_option U option this)"

definition parseOptions :: "Util \<Rightarrow> string \<Rightarrow> ResolvConf call" where
  "parseOptions U line this = (None, options_loop U (split_ws (toLowerCase (trim line))) this)"

text \<open>
  One turn of the loop of \<open>fromString\<close>, on one piece of the text between line feeds.
\<close>

definition config_line :: "Util \<Rightarrow> IPlib \<Rightarrow> string \<Rightarrow> ResolvConf call" where
  "config_line U I chunk this =
     (let line = trim chunk
      in if length line = 0 then (None, this)
         else if hd line = CHR ''#'' \<or> hd line = CHR '';'' then (None, this)
         else case indexOf CHR '' '' line of
           None \<Rightarrow> (None, this)
         | Some i \<Rightarrow>
             let option = toLowerCase (substring line 0 i);
                 rest = substring_from line (i + 1)
             in if option = ''nameserver'' then parseServer I rest this
                else if option = ''domain'' then parseDomain U rest this
                else if option = ''search'' then parseSearch U rest this
                else if option = ''sortlist'' then parseSort I rest this
                else if option = ''options'' then parseOptions U rest this
                else (None, this))"

definition fromString :: "Util \<Rightarrow> IPlib \<Rightarrow> string \<Rightarrow> ResolvConf call" where
  "fromString U I text this =
     for_each (config_line U I) (split_char CHR 0x0A (normalize_text text)) (clear this)"

definition readEnv :: "Util \<Rightarrow> Env \<Rightarrow> ResolvConf call" where
  "readEnv U E =
     seq (if truthy (LOCALDOMAIN E) then parseDomain U (the (LOCALDOMAIN E)) else ok)
         (if truthy (RES_OPTIONS E) then parseOptions U (the (RES_OPTIONS E)) else ok)"

definition fromFile :: "Util \<Rightarrow> IPlib \<Rightarrow> Env \<Rightarrow> string \<Rightarrow> ResolvConf call" where
  "fromFile U I E file this =
     (case readFile E file of
        None \<Rightarrow> (Some LibraryError, this)
      | Some text \<Rightarrow> fromString U I text this)"

definition fromSystem :: "Util \<Rightarrow> IPlib \<Rightarrow> Env \<Rightarrow> ResolvConf call" where
  "fromSystem U I E =
     seq (case getSystem E of
            Some file \<Rightarrow> try_catch (fromFile U I E file) (seq (\<lambda>this. (None, clear this)) (setDefault I))
          | None \<Rightarrow> seq (\<lambda>this. (None, clear this)) (setDefault I))
         (readEnv U E)"

text \<open>
  The asynchronous readers suspend on the read only and resume with the whole text, so
  their effect on the object is that of the same steps in sequence.
\<close>

definition fromFileAsync :: "Util \<Rightarrow> IPlib \<Rightarrow> Env \<Rightarrow> string \<Rightarrow> ResolvConf call" where
  "fromFileAsync U I E file this =
     (case readFile E file of
        None \<Rightarrow> (Some LibraryError, this)
      | Some text \<Rightarrow> fromString U I text this)"

definition fromSystemAsync :: "Util \<Rightarrow> IPlib \<Rightarrow> Env \<Rightarrow> ResolvConf call" where
  "fromSystemAsync U I E =
     seq (case getSystem E of
            Some file \<Rightarrow>
              try_catch (fromFileAsync U I E file) (seq (\<lambda>this. (None, clear this)) (setDefault I))
          | None \<Rightarrow> seq (\<lambda>this. (None, clear this)) (setDefault I))
         (readEnv U E)"

text \<open>
  The states a sequence of method calls can leave a configuration in, starting from the
  constructor. A call that throws leaves the object as it was at the throw, and the
  caller may go on using it. The environment is read at each call. \<open>inject\<close> above is
  the case of two different objects; an object injected into itself has its key map
  cleared before the copy loop runs over it.
\<close>

definition inject_self :: "ResolvConf \<Rightarrow> ResolvConf" where
  "inject_self this = this\<lparr>keys := Map.empty\<rparr>"

inductive reachable :: "Util \<Rightarrow> IPlib \<Rightarrow> ResolvConf \<Rightarrow> bool" for U :: Util and I :: IPlib where
  r_new: "reachable U I new_ResolvConf"
| r_inject: "reachable U I this \<Longrightarrow> reachable U I obj \<Longrightarrow> reachable U I (inject this obj)"
| r_inject_self: "reachable U I this \<Longrightarrow> reachable U I (inject_self this)"
| r_clone: "reachable U I this \<Longrightarrow> reachable U I (clone this)"
| r_clear: "reachable U I this \<Longrightarrow> reachable U I (clear this)"
| r_setServers: "reachable U I this \<Longrightarrow> reachable U I (snd (setServers I servers this))"
| r_clearServers: "reachable U I this \<Longrightarrow> reachable U I (clearServers this)"
| r_setDefault: "reachable U I this \<Longrightarrow> reachable U I (snd (setDefault I this))"
| r_setLocal: "reachable U I this \<Longrightarrow> reachable U I (snd (setLocal I this))"
| r_setGoogle: "reachable U I this \<Longrightarrow> reachable U I (snd (setGoogle I this))"
| r_setOpenDNS: "reachable U I this \<Longrightarrow> reachable U I (snd (setOpenDNS I this))"
| r_addServer: "reachable U I this \<Longrightarrow> reachable U I (snd (addServer I server this))"
| r_setDomain: "reachable U I this \<Longrightarrow> reachable U I (snd (setDomain U d this))"
| r_setSearch: "reachable U I this \<Longrightarrow> reachable U I (snd (setSearch U list this))"
| r_setSort: "reachable U I this \<Longrightarrow> reachable U I (snd (setSort I list this))"
| r_parseServer: "reachable U I this \<Longrightarrow> reachable U I (snd (parseServer I text this))"
| r_parseDomain: "reachable U I this \<Longrightarrow> reachable U I (snd (parseDomain U text this))"
| r_parseSearch: "reachable U I this \<Longrightarrow> reachable U I (snd (parseSearch U text this))"
| r_parseSort: "reachable U I this \<Longrightarrow> reachable U I (snd (parseSort I text this))"
| r_parseOptions: "reachable U I this \<Longrightarrow> reachable U I (snd (parseOptions U line this))"
| r_fromString: "reachable U I this \<Longrightarrow> reachable U I (snd (fromString U I text this))"
| r_readEnv: "reachable U I this \<Longrightarrow> reachable U I (snd (readEnv U E this))"
| r_fromFile: "reachable U I this \<Longrightarrow> reachable U I (snd (fromFile U I E file this))"
| r_fromSystem: "reachable U I this \<Longrightarrow> reachable U I (snd (fromSystem U I E this))"
| r_fromFileAsync: "reachable U I this \<Longrightarrow> reachable U I (snd (fromFileAsync U I E file this))"
| r_fromSystemAsync: "reachable U I this \<Longrightarrow> reachable U I (snd (fromSystemAsync U I E this))"

text \<open>
  The search list as the specification words it: the pieces of the string between runs
  of white space, those that fail the name check dropped, the others normalized, in the
  order of the input.
\<close>

definition valid_names :: "Util \<Rightarrow> string \<Rightarrow> string list" where
  "valid_names U list = map (fqdn U) (filter (isName U) (split_ws list))"

section \<open>Hosts\<close>

record HostEntry =
  name :: "string option"
  inet4 :: "string option"
  inet6 :: "string option"
  hostname :: "string option"

definition new_HostEntry :: HostEntry where
  "new_HostEntry = \<lparr>name = None, inet4 = None, inet6 = None, hostname = None\<rparr>"

text \<open>The two maps of a \<open>Hosts\<close> object, \<^verbatim>\<open>this.map\<close> and \<^verbatim>\<open>this.rev\<close>.\<close>

record Hosts =
  hosts_map :: "string \<rightharpoonup> HostEntry"
  hosts_rev :: "string \<rightharpoonup> string"

definition new_Hosts :: Hosts where
  "new_Hosts = \<lparr>hosts_map = Map.empty, hosts_rev = Map.empty\<rparr>"

definition clearHosts :: "Hosts \<Rightarrow> Hosts" where
  "clearHosts this = this\<lparr>hosts_map := Map.empty, hosts_rev := Map.empty\<rparr>"

text \<open>\<^verbatim>\<open>util.endsWith\<close>, and \<^verbatim>\<open>name.slice(0, -12)\<close>.\<close>

definition endsWith :: "string \<Rightarrow> string \<Rightarrow> bool" where
  "endsWith s suffix =
     (length suffix \<le> length s \<and> drop (length s - length suffix) s = suffix)"

definition slice_off :: "string \<Rightarrow> nat \<Rightarrow> string" where
  "slice_off s k = take (length s - k) s"

definition addHost :: "Util \<Rightarrow> IPlib \<Rightarrow> string \<Rightarrow> string \<Rightarrow> string option \<Rightarrow> Hosts call" where
  "addHost U I name0 host0 hostname0 this =
     (let name1 = fqdn U (toLowerCase name0)
      in if \<not> isName U name1 then (Some InvalidName, this)
         else
           let name2 = (if endsWith name1 ''.localdomain.'' then slice_off name1 12 else name1);
               hostname1 = (if truthy hostname0
                            then Some (fqdn U (toLowerCase (the hostname0))) else hostname0)
           in if truthy hostname0 \<and> \<not> isName U (the hostname1) then (Some InvalidHostname, this)
              else
                let entry0 = (case hosts_map this name2 of None \<Rightarrow> new_HostEntry | Some e \<Rightarrow> e)
                in case toBuffer I host0 of
                     None \<Rightarrow> (Some LibraryError, this)
                   | Some buf \<Rightarrow>
                       let addr = toString I buf
                       in case reverse I addr of
                            None \<Rightarrow> (Some LibraryError, this)
                          | Some rv \<Rightarrow>
                              let entry1 = entry0\<lparr>name := Some name2\<rparr>;
                                  entry2 = (if isIPv4 I buf then entry1\<lparr>inet4 := Some addr\<rparr>
                                            else entry1\<lparr>inet6 := Some addr\<rparr>);
                                  entry3 = entry2\<lparr>hostname := hostname1\<rparr>
                              in (None, this\<lparr>hosts_map := (hosts_map this)(name2 \<mapsto> entry3),
                                          hosts_rev := (hosts_rev this)(rv \<mapsto> name2)\<rparr>))"

definition lookup :: "Hosts \<Rightarrow> string \<Rightarrow> HostEntry option" where
  "lookup this name0 =
     (let k = toLowerCase name0;
          ptr = hosts_rev this k
      in if truthy ptr then hosts_map this (the ptr) else hosts_map this k)"

text \<open>The type and class numbers of \<^verbatim>\<open>constants.js\<close> the query uses.\<close>

definition types_A :: "16 word" where "types_A = 1"
definition types_PTR :: "16 word" where "types_PTR = 12"
definition types_AAAA :: "16 word" where "types_AAAA = 28"
definition types_ANY :: "16 word" where "types_ANY = 255"
definition classes_IN :: "16 word" where "classes_IN = 1"

datatype rdata = PTRRecord "string option" | ARecord string | AAAARecord string

text \<open>A record of the wire module, with the fields the query fills in.\<close>

record Record =
  rr_name :: string
  rr_type :: "16 word"
  rr_class :: "16 word"
  rr_ttl :: nat
  rr_data :: rdata

text \<open>
  \<open>query\<close>: \<open>None\<close> is the \<^verbatim>\<open>null\<close> of the source. The type is a 16-bit number by the
  assertion at the head of the method. The target of a PTR record is whatever the \<open>name\<close>
  field of the entry holds, and the address fields are tested for truth as the source
  does.
\<close>

definition query :: "Hosts \<Rightarrow> string \<Rightarrow> 16 word \<Rightarrow> Record list option" where
  "query this name0 qtype =
     (case lookup this name0 of
        None \<Rightarrow> None
      | Some entry \<Rightarrow>
          if qtype = types_PTR
          then Some [\<lparr>rr_name = name0, rr_type = types_PTR, rr_class = classes_IN, rr_ttl = 300,
                      rr_data = PTRRecord (name entry)\<rparr>]
          else
            let answer1 =
                  (if (qtype = types_A \<or> qtype = types_ANY) \<and> truthy (inet4 entry)
                   then [\<lparr>rr_name = name0, rr_type = types_A, rr_class = classes_IN,
                           rr_ttl = 300, rr_data = ARecord (the (inet4 entry))\<rparr>]
                   else []);
                answer2 =
                  (if (qtype = types_AAAA \<or> qtype = types_ANY) \<and> truthy (inet6 entry)
                   then answer1 @ [\<lparr>rr_name = name0, rr_type = types_AAAA, rr_class = classes_IN,
                                     rr_ttl = 300, rr_data = AAAARecord (the (inet6 entry))\<rparr>]
                   else answer1)
            in Some answer2)"

text \<open>
  The inner loop of \<open>fromString\<close>, \<^verbatim>\<open>for (let i = 1; i < parts.length; i++)\<close>, with the
  \<^verbatim>\<open>try\<close> around each \<open>addHost\<close>.
\<close>

function names_loop ::
  "Util \<Rightarrow> IPlib \<Rightarrow> string list \<Rightarrow> string \<Rightarrow> string option \<Rightarrow> nat \<Rightarrow> Hosts call" where
  "names_loop U I parts ip0 hostname0 i this =
     (if i < length parts
      then case try_catch (addHost U I (parts ! i) ip0 hostname0) ok this of
             (None, this') \<Rightarrow> names_loop U I parts ip0 hostname0 (Suc i) this'
           | (Some e, this') \<Rightarrow> (Some e, this')
      else (None, this))"
  by pat_completeness auto
termination
  by (relation "measure (\<lambda>(U, I, parts, ip0, hostname0, i, this). length parts - i)") auto

declare names_loop.simps [simp del]

definition hosts_line :: "Util \<Rightarrow> IPlib \<Rightarrow> string \<Rightarrow> Hosts call" where
  "hosts_line U I chunk this =
     (let line = trim chunk
      in if length line = 0 then (None, this)
         else if hd line = CHR ''#'' \<or> hd line = CHR '';'' then (None, this)
         else
           let parts0 = split_ws line;
               ip0 = parts0 ! 0;
               (hostname0, parts) =
                 (if length parts0 > 2 then (Some (last parts0), butlast parts0)
                  else (None, parts0))
           in names_loop U I parts ip0 hostname0 1 this)"

definition hosts_fromString :: "Util \<Rightarrow> IPlib \<Rightarrow> string \<Rightarrow> Hosts call" where
  "hosts_fromString U I text this =
     for_each (hosts_line U I)
       (split_char CHR 0x0A (toLowerCase (normalize_text text))) (clearHosts this)"

text \<open>
  A line of a hosts file as the specification words it: field 0 is the address; with more
  than two fields the last one is the host name and is taken off; every field left after
  the address is a name, added with that address and host name, and a name \<open>addHost\<close>
  rejects is passed over.
\<close>

definition line_address :: "string list \<Rightarrow> string" where
  "line_address flds = hd flds"

definition line_hostname :: "string list \<Rightarrow> string option" where
  "line_hostname flds = (if length flds > 2 then Some (last flds) else None)"

definition line_names :: "string list \<Rightarrow> string list" where
  "line_names flds = (if length flds > 2 then butlast (tl flds) else tl flds)"

definition add_or_skip :: "Util \<Rightarrow> IPlib \<Rightarrow> string \<Rightarrow> string option \<Rightarrow> Hosts \<Rightarrow> string \<Rightarrow> Hosts" where
  "add_or_skip U I address hname this name0 =
     (case addHost U I name0 address hname this of
        (None, this') \<Rightarrow> this'
      | (Some e, this') \<Rightarrow> this)"

definition line_effect :: "Util \<Rightarrow> IPlib \<Rightarrow> string list \<Rightarrow> Hosts \<Rightarrow> Hosts" where
  "line_effect U I flds this =
     foldl (add_or_skip U I (line_address flds) (line_hostname flds)) this (line_names flds)"

definition is_entry_line :: "string \<Rightarrow> bool" where
  "is_entry_line chunk =
     (trim chunk \<noteq> [] \<and> hd (trim chunk) \<noteq> CHR ''#'' \<and> hd (trim chunk) \<noteq> CHR '';'')"

text \<open>
  The answers as the specification words them: one record for an address family present
  on the entry, with a time to live of 300 seconds and class IN.
\<close>

definition answer_record :: "string \<Rightarrow> 16 word \<Rightarrow> rdata \<Rightarrow> Record" where
  "answer_record qname rtype rd =
     \<lparr>rr_name = qname, rr_type = rtype, rr_class = classes_IN, rr_ttl = 300, rr_data = rd\<rparr>"

definition inet4_answer :: "string \<Rightarrow> HostEntry \<Rightarrow> Record list" where
  "inet4_answer qname entry =
     (case inet4 entry of
        None \<Rightarrow> []
      | Some a \<Rightarrow> if a = [] then [] else [answer_record qname types_A (ARecord a)])"

definition inet6_answer :: "string \<Rightarrow> HostEntry \<Rightarrow> Record list" where
  "inet6_answer qname entry =
     (case inet6 entry of
        None \<Rightarrow> []
      | Some a \<Rightarrow> if a = [] then [] else [answer_record qname types_AAAA (AAAARecord a)])"

text \<open>A database with one name that has an address of each family.\<close>

definition example_entry :: HostEntry where
  "example_entry =
     \<lparr>name = Some ''a.example.'', inet4 = Some ''1.2.3.4'', inet6 = Some ''::1'',
      hostname = None\<rparr>"

definition example_hosts :: Hosts where
  "example_hosts =
     \<lparr>hosts_map = [''a.example.'' \<mapsto> example_entry],
      hosts_rev = [''4.3.2.1.in-addr.arpa.'' \<mapsto> ''a.example.'']\<rparr>"

text \<open>A line with a name that fails the name check between the address and the host name.\<close>

definition example_line :: string where
  "example_line = ''1.2.3.4 good.example b@d.example myhost''"

section \<open>Configuration objects with their arrays in a store\<close>

text \<open>
  The records above hold the contents of the arrays. What \<open>clone\<close> copies and what it
  shares shows only when an array is an object of its own: here a field that holds an
  array or a map holds its address in a store, and the strings, numbers and booleans are
  held as they are. The key map keeps its entries in the order they were set.
\<close>

type_synonym ref = nat

datatype cell =
    AddressArray "Address list"
  | NameArray "string list"
  | SortArray "SortItem list"
  | KeyMap "(string \<times> buffer) list"

record store =
  cells :: "ref \<rightharpoonup> cell"
  next_ref :: ref

definition empty_store :: store where
  "empty_store = \<lparr>cells = Map.empty, next_ref = 0\<rparr>"

definition alloc :: "cell \<Rightarrow> store \<Rightarrow> ref \<times> store" where
  "alloc c h = (next_ref h, h\<lparr>cells := (cells h)(next_ref h \<mapsto> c), next_ref := Suc (next_ref h)\<rparr>)"

record ResolvConfObj =
  o_ns4 :: ref
  o_ns6 :: ref
  o_keys :: ref
  o_domain :: "string option"
  o_search :: "ref option"
  o_sortlist :: ref
  o_debug :: bool
  o_dots :: nat
  o_timeout :: nat
  o_attempts :: nat
  o_rotate :: bool
  o_checkNames :: bool
  o_inet6 :: bool
  o_byteString :: bool
  o_dotInt :: bool
  o_edns :: bool
  o_singleRequest :: bool
  o_singleRequestReopen :: bool
  o_tldQuery :: bool
  o_forceTCP :: bool

text \<open>The constructor allocates the two server arrays, the key map and the sort list.\<close>

definition new_obj :: "store \<Rightarrow> ResolvConfObj \<times> store" where
  "new_obj h =
     (let (r4, h1) = alloc (AddressArray []) h;
          (r6, h2) = alloc (AddressArray []) h1;
          (rk, h3) = alloc (KeyMap []) h2;
          (rs, h4) = alloc (SortArray []) h3
      in (\<lparr>o_ns4 = r4, o_ns6 = r6, o_keys = rk, o_domain = None, o_search = None,
           o_sortlist = rs, o_debug = False, o_dots = 1, o_timeout = 5, o_attempts = 2,
           o_rotate = False, o_checkNames = True, o_inet6 = False, o_byteString = False,
           o_dotInt = False, o_edns = False, o_singleRequest = False,
           o_singleRequestReopen = False, o_tldQuery = True, o_forceTCP = False\<rparr>, h4))"

text \<open>\<^verbatim>\<open>a.slice()\<close>: a new array with the elements of the one at \<open>r\<close>.\<close>

definition slice :: "ref \<Rightarrow> store \<Rightarrow> ref \<times> store" where
  "slice r h = (case cells h r of Some c \<Rightarrow> alloc c h | None \<Rightarrow> alloc (NameArray []) h)"

definition key_entries :: "store \<Rightarrow> ref \<Rightarrow> (string \<times> buffer) list" where
  "key_entries h r = (case cells h r of Some (KeyMap kvs) \<Rightarrow> kvs | _ \<Rightarrow> [])"

definition keys_set :: "ref \<Rightarrow> string \<times> buffer \<Rightarrow> store \<Rightarrow> store" where
  "keys_set r kv h =
     h\<lparr>cells := (cells h)(r \<mapsto> KeyMap (AList.update (fst kv) (snd kv) (key_entries h r)))\<rparr>"

definition keys_clear :: "ref \<Rightarrow> store \<Rightarrow> store" where
  "keys_clear r h = h\<lparr>cells := (cells h)(r \<mapsto> KeyMap [])\<rparr>"

text \<open>
  \<open>inject\<close>, statement by statement: the server arrays and the sort list are sliced, the
  key map of \<open>this\<close> is cleared and filled from that of \<open>obj\<close>, and \<^verbatim>\<open>this.search = obj.search\<close>
  stores the value of the field, which is the address of the array of \<open>obj\<close>.
\<close>

definition inject_obj :: "ResolvConfObj \<Rightarrow> ResolvConfObj \<Rightarrow> store \<Rightarrow> ResolvConfObj \<times> store" where
  "inject_obj this obj h =
     (let (r4, h1) = slice (o_ns4 obj) h;
          (r6, h2) = slice (o_ns6 obj) h1;
          h3 = keys_clear (o_keys this) h2;
          h4 = foldl (\<lambda>h' kv. keys_set (o_keys this) kv h') h3 (key_entries h3 (o_keys obj));
          (rs, h5) = slice (o_sortlist obj) h4
      in (this\<lparr>o_ns4 := r4, o_ns6 := r6, o_domain := o_domain obj, o_search := o_search obj,
            o_sortlist := rs, o_debug := o_debug obj, o_dots := o_dots obj,
            o_timeout := o_timeout obj, o_attempts := o_attempts obj, o_rotate := o_rotate obj,
            o_checkNames := o_checkNames obj, o_inet6 := o_inet6 obj,
            o_byteString := o_byteString obj, o_dotInt := o_dotInt obj, o_edns := o_edns obj,
            o_singleRequest := o_singleRequest obj,
            o_singleRequestReopen := o_singleRequestReopen obj, o_tldQuery := o_tldQuery obj,
            o_forceTCP := o_forceTCP obj\<rparr>, h5))"

definition clone_obj :: "ResolvConfObj \<Rightarrow> store \<Rightarrow> ResolvConfObj \<times> store" where
  "clone_obj this h = (let (copy, h1) = new_obj h in inject_obj copy this h1)"

text \<open>
  \<open>setSearch\<close> on an object: \<^verbatim>\<open>this.search = []\<close> is a new array, which the loop fills.
\<close>

definition setSearch_obj ::
  "Util \<Rightarrow> string \<Rightarrow> ResolvConfObj \<Rightarrow> store \<Rightarrow> error option \<times> ResolvConfObj \<times> store" where
  "setSearch_obj U list this h =
     (if length list > 256 then (Some SearchListTooLarge, this, h)
      else
        let (e, found) = search_loop U [] (split_ws list);
            (r, h1) = alloc (NameArray found) h
        in (e, this\<lparr>o_domain := None, o_search := Some r\<rparr>, h1))"

text \<open>\<^verbatim>\<open>a.push(x)\<close> on the array of names at \<open>r\<close>, by whoever holds that array.\<close>

definition names_push :: "ref \<Rightarrow> string \<Rightarrow> store \<Rightarrow> store" where
  "names_push r x h =
     (case cells h r of
        Some (NameArray xs) \<Rightarrow> h\<lparr>cells := (cells h)(r \<mapsto> NameArray (xs @ [x]))\<rparr>
      | _ \<Rightarrow> h)"

text \<open>What reading \<^verbatim>\<open>obj.search\<close> shows: null, or the elements of the array.\<close>

definition read_search :: "store \<Rightarrow> ResolvConfObj \<Rightarrow> string list option" where
  "read_search h obj =
     (case o_search obj of
        None \<Rightarrow> None
      | Some r \<Rightarrow> (case cells h r of Some (NameArray xs) \<Rightarrow> Some xs | _ \<Rightarrow> None))"

section \<open>Instances of the collaborators for closed examples\<close>

definition is_digit :: "char \<Rightarrow> bool" where
  "is_digit c = (let n = (of_char c :: int) in 48 \<le> n \<and> n \<le> 57)"

definition is_hex :: "char \<Rightarrow> bool" where
  "is_hex c =
     (let n = (of_char c :: int)
      in (48 \<le> n \<and> n \<le> 57) \<or> (97 \<le> n \<and> n \<le> 102) \<or> (65 \<le> n \<and> n \<le> 70))"

definition is_label_char :: "char \<Rightarrow> bool" where
  "is_label_char c =
     (let n = (of_char c :: int)
      in (48 \<le> n \<and> n \<le> 57) \<or> (97 \<le> n \<and> n \<le> 122) \<or> (65 \<le> n \<and> n \<le> 90)
         \<or> n = 45 \<or> n = 95)"

definition decimal :: "string \<Rightarrow> nat" where
  "decimal s = foldl (\<lambda>n c. 10 * n + nat (of_char c - 48)) 0 s"

text \<open>
  Modelled from the spec: the module \<^verbatim>\<open>./util\<close> is not among the sources, and the
  specification says of it only that it checks domain-name syntax, normalizes to a
  fully-qualified name `with a trailing separator denoting the root' and parses numbers.
  This instance takes a name to be dot-separated labels of 1 to 63 letters, digits,
  hyphens and underscores, 255 characters at most, a number to be decimal digits with a
  value up to 255, and \<open>fqdn\<close> to append the dot a name lacks. The theorems below hold for
  every instance; this one serves the closed examples.
\<close>

definition spec_isName :: "string \<Rightarrow> bool" where
  "spec_isName s =
     (s \<noteq> [] \<and> length s \<le> 255 \<and>
      (s = ''.'' \<or>
       list_all (\<lambda>l. l \<noteq> [] \<and> length l \<le> 63 \<and> list_all is_label_char l)
         (split_char CHR ''.'' (if last s = CHR ''.'' then butlast s else s))))"

definition spec_fqdn :: "string \<Rightarrow> string" where
  "spec_fqdn s = (if s \<noteq> [] \<and> last s = CHR ''.'' then s else s @ ''.'')"

definition spec_parseU8 :: "string \<Rightarrow> nat option" where
  "spec_parseU8 s =
     (if s \<noteq> [] \<and> list_all is_digit s \<and> decimal s \<le> 255 then Some (decimal s) else None)"

definition spec_util :: Util where
  "spec_util = \<lparr>isName = spec_isName, fqdn = spec_fqdn, parseU8 = spec_parseU8\<rparr>"

text \<open>
  Modelled from the spec: the address library is outside the repository, `string to
  binary IP parsing, reverse-DNS name generation, IPv4/IPv6 classification'. This
  instance knows plain address literals only, without port or key: four decimal bytes
  separated by dots are of family 4, a string of hexadecimal digits and at least one colon
  is of family 6, anything else makes the call throw. The binary form keeps the code units
  of the text, and the reverse name is built for family 4 only.
\<close>

definition is_ipv4_text :: "string \<Rightarrow> bool" where
  "is_ipv4_text s =
     (length (split_char CHR ''.'' s) = 4
      \<and> list_all (\<lambda>p. spec_parseU8 p \<noteq> None) (split_char CHR ''.'' s))"

definition is_ipv6_text :: "string \<Rightarrow> bool" where
  "is_ipv6_text s =
     (list_ex (\<lambda>c. c = CHR '':'') s \<and> list_all (\<lambda>c. is_hex c \<or> c = CHR '':'') s)"

definition spec_fromHost :: "string \<Rightarrow> nat \<Rightarrow> Address option" where
  "spec_fromHost s p =
     (if is_ipv4_text s then Some \<lparr>type = 4, host = s, port = p, hostname = s, key = None\<rparr>
      else if is_ipv6_text s then Some \<lparr>type = 6, host = s, port = p, hostname = s, key = None\<rparr>
      else None)"

definition spec_IP :: IPlib where
  "spec_IP =
     \<lparr>fromHost = spec_fromHost,
      normalize = (\<lambda>s. if is_ipv4_text s \<or> is_ipv6_text s then Some s else None),
      toBuffer = (\<lambda>s. if is_ipv4_text s \<or> is_ipv6_text s then Some (map of_char s) else None),
      toString = (\<lambda>b. map (\<lambda>w. char_of (unat w)) b),
      isIPv4 = (\<lambda>b. list_ex (\<lambda>w. w = 46) b),
      reverse = (\<lambda>s. if is_ipv4_text s
                      then Some (concat (map (\<lambda>p. p @ ''.'') (rev (split_char CHR ''.'' s)))
                                 @ ''in-addr.arpa.'')
                      else None)\<rparr>"

text \<open>Six names of 48 characters each, separated by single spaces: 293 characters.\<close>

definition six_long_names :: string where
  "six_long_names =
     (''aaaaaaaaaaaaaaaaaaaaaaaaaaaaaaaaaaaaaaaa.example ''
      @ ''aaaaaaaaaaaaaaaaaaaaaaaaaaaaaaaaaaaaaaaa.example ''
      @ ''aaaaaaaaaaaaaaaaaaaaaaaaaaaaaaaaaaaaaaaa.example ''
      @ ''aaaaaaaaaaaaaaaaaaaaaaaaaaaaaaaaaaaaaaaa.example ''
      @ ''aaaaaaaaaaaaaaaaaaaaaaaaaaaaaaaaaaaaaaaa.example ''
      @ ''aaaaaaaaaaaaaaaaaaaaaaaaaaaaaaaaaaaaaaaa.example'')"

text \<open>The two search-policy fields are not both set.\<close>

definition exclusive :: "ResolvConf \<Rightarrow> bool" where
  "exclusive this = (domain this = None \<or> search this = None)"

text \<open>
  The address library parses every one of the given servers to an address of family 4
  or 6, as \<open>addServer\<close> needs it.
\<close>

definition accepts :: "IPlib \<Rightarrow> string list \<Rightarrow> bool" where
  "accepts I servers =
     list_all (\<lambda>server. case fromHost I server 53 of
                           None \<Rightarrow> False
                         | Some addr \<Rightarrow> type addr = 4 \<or> type addr = 6) servers"

text \<open>
  The configuration the fallback leaves, as the specification words it: empty, that is
  every field as the constructor sets it, but for the default servers, which are the
  addresses the library parses the four names to, sorted by family, with the keys they
  carry.
\<close>

definition default_servers :: "IPlib \<Rightarrow> Address list" where
  "default_servers I = List.map_filter (\<lambda>server. fromHost I server 53) GOOGLE_NS"

definition add_key :: "(string \<rightharpoonup> buffer) \<Rightarrow> Address \<Rightarrow> (string \<rightharpoonup> buffer)" where
  "add_key m addr = (case key addr of None \<Rightarrow> m | Some k \<Rightarrow> m(Address.hostname addr \<mapsto> k))"

definition default_conf :: "IPlib \<Rightarrow> ResolvConf" where
  "default_conf I =
     new_ResolvConf
       \<lparr>ns4 := filter (\<lambda>addr. type addr = 4) (default_servers I),
        ns6 := filter (\<lambda>addr. type addr = 6) (default_servers I),
        keys := foldl add_key Map.empty (default_servers I)\<rparr>"

text \<open>
  The two overrides of the environment: \<^verbatim>\<open>LOCALDOMAIN\<close>, when set and not empty, is
  a domain directive, which sets the domain and clears the search list when its trimmed,
  lower-cased value is a valid name; \<^verbatim>\<open>RES_OPTIONS\<close>, when set and not empty, is an
  options line, whose tokens are applied in order. The options come second.
\<close>

definition apply_LOCALDOMAIN :: "Util \<Rightarrow> Env \<Rightarrow> ResolvConf \<Rightarrow> ResolvConf" where
  "apply_LOCALDOMAIN U E this =
     (case LOCALDOMAIN E of
        None \<Rightarrow> this
      | Some d \<Rightarrow>
          if d = [] \<or> \<not> isName U (toLowerCase (trim d)) then this
          else this\<lparr>search := None, domain := Some (fqdn U (toLowerCase (trim d)))\<rparr>)"

definition apply_RES_OPTIONS :: "Util \<Rightarrow> Env \<Rightarrow> ResolvConf \<Rightarrow> ResolvConf" where
  "apply_RES_OPTIONS U E this =
     (case RES_OPTIONS E of
        None \<Rightarrow> this
      | Some line \<Rightarrow>
          if line = [] then this
          else foldl (\<lambda>s token. parse_option U token s) this
                 (split_ws (toLowerCase (trim line))))"

definition env_overrides :: "Util \<Rightarrow> Env \<Rightarrow> ResolvConf \<Rightarrow> ResolvConf" where
  "env_overrides U E this = apply_RES_OPTIONS U E (apply_LOCALDOMAIN U E this)"

text \<open>A configuration that has been in use, with a search list and changed options.\<close>

definition used_conf :: ResolvConf where
  "used_conf =
     new_ResolvConf\<lparr>search := Some [''old.example.''], dots := 7, timeout := 9, rotate := True\<rparr>"

text \<open>
  Environments for the closed examples: a POSIX platform on which no file can be read,
  with \<^verbatim>\<open>LOCALDOMAIN=test.\<close> and \<^verbatim>\<open>RES_OPTIONS\<close> set, and a platform without a
  configuration path.
\<close>

definition example_env :: Env where
  "example_env =
     \<lparr>platform = ''linux'', LOCALDOMAIN = Some ''test.'', RES_OPTIONS = Some ''ndots:20 attempts:9'',
      readFile = (\<lambda>file. None)\<rparr>"

definition example_env_win :: Env where
  "example_env_win =
     \<lparr>platform = ''win32'', LOCALDOMAIN = None, RES_OPTIONS = Some ''timeout:99'',
      readFile = (\<lambda>file. Some ''nameserver 1.1.1.1'')\<rparr>"

text \<open>A malformed nameserver line followed by a valid one.\<close>

definition two_nameservers :: string where
  "two_nameservers =
     ''nameserver not.an.address'' @ [CHR 0x0A] @ ''nameserver 8.8.8.8'' @ [CHR 0x0A]"

text \<open>The twelve flags of an options line that take no argument.\<close>

definition bare_flags :: "string list" where
  "bare_flags =
     [''debug'', ''rotate'', ''no-check-names'', ''inet6'', ''ip6-bytestring'', ''ip6-dotint'',
      ''no-ip6-dotint'', ''edns0'', ''single-request'', ''single-request-reopen'',
      ''no-tld-query'', ''use-vc'']"

section \<open>Bare flags in an options line\<close>

lemma indexOf_None_iff: "indexOf d s = None \<longleftrightarrow> d \<notin> set s"
  by (induction s) auto

lemma parse_option_no_colon:
  "CHR '':'' \<notin> set option \<Longrightarrow> parse_option U option this = this"
  using indexOf_None_iff [of "CHR '':''" option] by (simp add: parse_option_def)

lemma options_loop_no_colon:
  "\<forall>option \<in> set options. CHR '':'' \<notin> set option \<Longrightarrow> options_loop U options this = this"
  by (induction options arbitrary: this) (simp_all add: parse_option_no_colon)

text \<open>
  C1. The claim is that a bare flag with a recognized name, such as \<open>rotate\<close>, sets its
  field. In the code a token without a colon gets the empty name, which no case of the
  switch matches: for each of the twelve flags, \<open>parseOptions\<close> of the flag alone returns
  the object unchanged, and \<open>rotate\<close> is still false on a fresh object, whatever the
  helpers of util are.
\<close>

theorem parseOptions_bare_flags_ignored:
  "list_all (\<lambda>flag. parseOptions U flag this = (None, this)) bare_flags
   \<and> rotate (snd (parseOptions U ''rotate'' new_ResolvConf)) = False"
proof -
  have t: "list_all (\<lambda>f. split_ws (toLowerCase (trim f)) = [f] \<and> CHR '':'' \<notin> set f) bare_flags"
    by code_simp
  have u: "parseOptions U f s = (None, s)"
    if "split_ws (toLowerCase (trim f)) = [f] \<and> CHR '':'' \<notin> set f" for f s
    using that by (simp add: parseOptions_def parse_option_no_colon)
  from t have a: "list_all (\<lambda>flag. parseOptions U flag this = (None, this)) bare_flags"
    by (rule list.pred_mono_strong) (rule u)
  then have "parseOptions U ''rotate'' s = (None, s)" for s
    using u [of "''rotate''" s] t by (simp add: bare_flags_def)
  with a show ?thesis
    by (simp add: new_ResolvConf_def)
qed

section \<open>The search list\<close>

lemma search_loop_eq:
  "length acc \<le> 6 \<Longrightarrow>
   search_loop U acc ns =
     (if length acc + length (filter (isName U) ns) > 6
      then (Some SearchListTooLarge, take 6 (acc @ map (fqdn U) (filter (isName U) ns)))
      else (None, acc @ map (fqdn U) (filter (isName U) ns)))"
proof (induction ns arbitrary: acc)
  case Nil
  then show ?case by simp
next
  case (Cons n ns)
  show ?case
  proof (cases "isName U n")
    case False
    with Cons show ?thesis by simp
  next
    case True
    show ?thesis
    proof (cases "length acc = 6")
      case True
      with \<open>isName U n\<close> show ?thesis by simp
    next
      case False
      with Cons.prems have "length (acc @ [fqdn U n]) \<le> 6" by simp
      from Cons.IH [OF this] \<open>isName U n\<close> False show ?thesis by simp
    qed
  qed
qed

lemma setSearch_short:
  "length list \<le> 256 \<Longrightarrow>
   setSearch U list this =
     (if length (valid_names U list) > 6
      then (Some SearchListTooLarge,
            this\<lparr>domain := None, search := Some (take 6 (valid_names U list))\<rparr>)
      else (None, this\<lparr>domain := None, search := Some (valid_names U list)\<rparr>))"
  by (simp add: setSearch_def valid_names_def search_loop_eq [of "[]", simplified])

lemma setSearch_long:
  "length list > 256 \<Longrightarrow> setSearch U list this = (Some SearchListTooLarge, this)"
  by (simp add: setSearch_def)

text \<open>
  C10. \<open>setSearch\<close> is not atomic. A string of at most 256 characters with more than six
  valid names makes it throw `Search list too large.' after it has written to the object:
  \<open>domain\<close> is null and \<open>search\<close> holds the first six normalized names. A string of more
  than 256 characters is rejected before any token is looked at, however few valid names
  it holds, and the object is as it was.
\<close>

theorem setSearch_not_atomic:
  "(length list \<le> 256 \<and> length (valid_names U list) > 6 \<longrightarrow>
      setSearch U list this =
        (Some SearchListTooLarge,
         this\<lparr>domain := None, search := Some (take 6 (valid_names U list))\<rparr>))
   \<and> (length list > 256 \<longrightarrow> setSearch U list this = (Some SearchListTooLarge, this))"
  by (simp add: setSearch_short setSearch_long)

theorem setSearch_not_atomic_witness:
  "length ''a b c d e f g'' \<le> 256
   \<and> length (valid_names spec_util ''a b c d e f g'') > 6
   \<and> setSearch spec_util ''a b c d e f g'' (new_ResolvConf\<lparr>domain := Some ''x.''\<rparr>)
       = (Some SearchListTooLarge,
          new_ResolvConf\<lparr>domain := None,
            search := Some [''a.'', ''b.'', ''c.'', ''d.'', ''e.'', ''f.'']\<rparr>)
   \<and> length (replicate 257 CHR ''a'') > 256
   \<and> setSearch spec_util (replicate 257 CHR ''a'') (new_ResolvConf\<lparr>domain := Some ''x.''\<rparr>)
       = (Some SearchListTooLarge, new_ResolvConf\<lparr>domain := Some ''x.''\<rparr>)"
proof -
  have v: "valid_names spec_util ''a b c d e f g''
             = [''a.'', ''b.'', ''c.'', ''d.'', ''e.'', ''f.'', ''g.'']"
    by code_simp
  show ?thesis
    using setSearch_not_atomic [of "''a b c d e f g''" spec_util "new_ResolvConf\<lparr>domain := Some ''x.''\<rparr>"]
      setSearch_not_atomic [of "replicate 257 CHR ''a''" spec_util "new_ResolvConf\<lparr>domain := Some ''x.''\<rparr>"]
    by (simp add: v)
qed

text \<open>
  C6, amended. The valid names of a string are its pieces between runs of white space,
  the invalid ones dropped, the valid ones normalized, in input order. For every string,
  seven or more valid names make the call throw. For every string of at most 256
  characters with six valid names or fewer, the call succeeds with \<open>search\<close> holding
  exactly those names and \<open>domain\<close> null. Every string of more than 256 characters makes
  the call throw before it is split, whatever it holds, and the object is as it was: six
  valid names of 48 characters are refused.
\<close>

theorem setSearch_within_limit:
  "(7 \<le> length (valid_names U list) \<longrightarrow> fst (setSearch U list this) = Some SearchListTooLarge)
   \<and> (length list \<le> 256 \<and> length (valid_names U list) \<le> 6 \<longrightarrow>
        setSearch U list this
          = (None, this\<lparr>domain := None, search := Some (valid_names U list)\<rparr>))
   \<and> (256 < length list \<longrightarrow> setSearch U list this = (Some SearchListTooLarge, this))"
  by (cases "length list \<le> 256") (simp_all add: setSearch_short setSearch_long)

theorem setSearch_within_limit_witness:
  "length ''one two three four five six'' \<le> 256
   \<and> length (valid_names spec_util ''one two three four five six'') \<le> 6
   \<and> setSearch spec_util ''one two three four five six'' (new_ResolvConf\<lparr>domain := Some ''x.''\<rparr>)
       = (None, new_ResolvConf\<lparr>domain := None,
            search := Some [''one.'', ''two.'', ''three.'', ''four.'', ''five.'', ''six.'']\<rparr>)
   \<and> 7 \<le> length (valid_names spec_util ''a b c d e f g'')
   \<and> fst (setSearch spec_util ''a b c d e f g'' (new_ResolvConf\<lparr>domain := Some ''x.''\<rparr>))
       = Some SearchListTooLarge
   \<and> 256 < length six_long_names
   \<and> setSearch spec_util six_long_names (new_ResolvConf\<lparr>domain := Some ''x.''\<rparr>)
       = (Some SearchListTooLarge, new_ResolvConf\<lparr>domain := Some ''x.''\<rparr>)"
proof -
  let ?s = "new_ResolvConf\<lparr>domain := Some ''x.''\<rparr>"
  have v6: "valid_names spec_util ''one two three four five six''
              = [''one.'', ''two.'', ''three.'', ''four.'', ''five.'', ''six.'']"
    by code_simp
  have v7: "valid_names spec_util ''a b c d e f g''
              = [''a.'', ''b.'', ''c.'', ''d.'', ''e.'', ''f.'', ''g.'']"
    by code_simp
  have l: "256 < length six_long_names"
    by (simp add: six_long_names_def)
  show ?thesis
    using l setSearch_within_limit [of spec_util "''one two three four five six''" ?s]
      setSearch_within_limit [of spec_util "''a b c d e f g''" ?s]
      setSearch_within_limit [of spec_util six_long_names ?s]
    by (simp add: v6 v7)
qed

theorem setSearch_six_long_names_rejected:
  "length six_long_names = 293
   \<and> valid_names spec_util six_long_names
     = [''aaaaaaaaaaaaaaaaaaaaaaaaaaaaaaaaaaaaaaaa.example.'',
      ''aaaaaaaaaaaaaaaaaaaaaaaaaaaaaaaaaaaaaaaa.example.'',
      ''aaaaaaaaaaaaaaaaaaaaaaaaaaaaaaaaaaaaaaaa.example.'',
      ''aaaaaaaaaaaaaaaaaaaaaaaaaaaaaaaaaaaaaaaa.example.'',
      ''aaaaaaaaaaaaaaaaaaaaaaaaaaaaaaaaaaaaaaaa.example.'',
      ''aaaaaaaaaaaaaaaaaaaaaaaaaaaaaaaaaaaaaaaa.example.'']
   \<and> setSearch spec_util six_long_names new_ResolvConf
     = (Some SearchListTooLarge, new_ResolvConf)"
proof -
  have v: "valid_names spec_util six_long_names
     = [''aaaaaaaaaaaaaaaaaaaaaaaaaaaaaaaaaaaaaaaa.example.'',
      ''aaaaaaaaaaaaaaaaaaaaaaaaaaaaaaaaaaaaaaaa.example.'',
      ''aaaaaaaaaaaaaaaaaaaaaaaaaaaaaaaaaaaaaaaa.example.'',
      ''aaaaaaaaaaaaaaaaaaaaaaaaaaaaaaaaaaaaaaaa.example.'',
      ''aaaaaaaaaaaaaaaaaaaaaaaaaaaaaaaaaaaaaaaa.example.'',
      ''aaaaaaaaaaaaaaaaaaaaaaaaaaaaaaaaaaaaaaaa.example.'']"
    by code_simp
  have l: "length six_long_names = 293"
    by (simp add: six_long_names_def)
  then have "256 < length six_long_names" by simp
  from setSearch_long [OF this] v l show ?thesis by simp
qed

section \<open>Domain and search list exclude each other\<close>

lemma for_each_preserves:
  assumes step: "\<And>x s. P s \<Longrightarrow> P (snd (f x s))"
  shows "P s \<Longrightarrow> P (snd (for_each f xs s))"
proof (induction xs arbitrary: s)
  case Nil
  then show ?case by simp
next
  case (Cons x xs)
  from Cons.prems have "P (snd (f x s))" by (rule step)
  with Cons.IH [of "snd (f x s)"] show ?case
    by (cases "f x s") (auto split: option.splits)
qed

lemma seq_preserves:
  "(\<And>s. P s \<Longrightarrow> P (snd (f s))) \<Longrightarrow> (\<And>s. P s \<Longrightarrow> P (snd (g s))) \<Longrightarrow> P s
   \<Longrightarrow> P (snd (seq f g s))"
  unfolding seq_def by (cases "f s") (force split: option.splits)

lemma try_catch_preserves:
  "(\<And>s. P s \<Longrightarrow> P (snd (f s))) \<Longrightarrow> (\<And>s. P s \<Longrightarrow> P (snd (g s))) \<Longrightarrow> P s
   \<Longrightarrow> P (snd (try_catch f g s))"
  unfolding try_catch_def by (cases "f s") (force split: option.splits)

lemma ok_preserves: "P s \<Longrightarrow> P (snd (ok s))"
  by (simp add: ok_def)

lemma exclusive_addServer: "exclusive s \<Longrightarrow> exclusive (snd (addServer I x s))"
  by (auto simp: exclusive_def addServer_def set_key_def split: option.splits)

lemma exclusive_setServers: "exclusive s \<Longrightarrow> exclusive (snd (setServers I xs s))"
  unfolding setServers_def
  by (rule for_each_preserves [where P = exclusive])
     (simp_all add: exclusive_addServer, simp add: exclusive_def clearServers_def)

lemma exclusive_setDefault: "exclusive s \<Longrightarrow> exclusive (snd (setDefault I s))"
  by (simp add: setDefault_def setGoogle_def exclusive_setServers)

lemma exclusive_setDomain': "exclusive s \<Longrightarrow> exclusive (snd (setDomain U d s))"
  by (simp add: exclusive_def setDomain_def)

lemma exclusive_setSearch: "exclusive s \<Longrightarrow> exclusive (snd (setSearch U l s))"
  by (cases "length l \<le> 256") (simp_all add: setSearch_short setSearch_long exclusive_def)

lemma sort_loop_fields:
  "domain (snd (sort_loop I ps s)) = domain s \<and> search (snd (sort_loop I ps s)) = search s"
  by (induction ps arbitrary: s) (auto split: option.splits)

lemma exclusive_setSort: "exclusive s \<Longrightarrow> exclusive (snd (setSort I l s))"
  by (simp add: exclusive_def setSort_def sort_loop_fields)

lemma parse_option_fields:
  "domain (parse_option U opt s) = domain s \<and> search (parse_option U opt s) = search s"
  by (simp add: parse_option_def Let_def split: prod.splits option.splits)

lemma options_loop_fields:
  "domain (options_loop U opts s) = domain s \<and> search (options_loop U opts s) = search s"
  by (induction opts arbitrary: s) (simp_all add: parse_option_fields)

lemma exclusive_parseOptions: "exclusive s \<Longrightarrow> exclusive (snd (parseOptions U l s))"
  by (simp add: exclusive_def parseOptions_def options_loop_fields)

lemma exclusive_parseServer: "exclusive s \<Longrightarrow> exclusive (snd (parseServer I t s))"
  unfolding parseServer_def
  by (rule try_catch_preserves [where P = exclusive]) (simp_all add: exclusive_addServer ok_def)

lemma exclusive_parseDomain: "exclusive s \<Longrightarrow> exclusive (snd (parseDomain U t s))"
  unfolding parseDomain_def
  by (rule try_catch_preserves [where P = exclusive]) (simp_all add: exclusive_setDomain' ok_def)

lemma exclusive_parseSearch: "exclusive s \<Longrightarrow> exclusive (snd (parseSearch U t s))"
  unfolding parseSearch_def
  by (rule try_catch_preserves [where P = exclusive]) (simp_all add: exclusive_setSearch ok_def)

lemma exclusive_parseSort: "exclusive s \<Longrightarrow> exclusive (snd (parseSort I t s))"
  unfolding parseSort_def
  by (rule try_catch_preserves [where P = exclusive]) (simp_all add: exclusive_setSort ok_def)

lemma exclusive_config_line: "exclusive s \<Longrightarrow> exclusive (snd (config_line U I c s))"
  by (simp add: config_line_def Let_def exclusive_parseServer exclusive_parseDomain
      exclusive_parseSearch exclusive_parseSort exclusive_parseOptions split: option.splits)

lemma exclusive_clear: "exclusive (clear s)"
  by (simp add: exclusive_def clear_def)

lemma exclusive_fromString: "exclusive (snd (fromString U I t s))"
  unfolding fromString_def
  by (rule for_each_preserves [where P = exclusive])
     (simp_all add: exclusive_config_line exclusive_clear)

lemma exclusive_readEnv: "exclusive s \<Longrightarrow> exclusive (snd (readEnv U E s))"
  unfolding readEnv_def
  by (rule seq_preserves [where P = exclusive])
     (simp_all add: exclusive_parseDomain exclusive_parseOptions ok_def)

lemma exclusive_fromFile: "exclusive s \<Longrightarrow> exclusive (snd (fromFile U I E f s))"
  by (simp add: fromFile_def exclusive_fromString split: option.splits)

lemma exclusive_fromFileAsync: "exclusive s \<Longrightarrow> exclusive (snd (fromFileAsync U I E f s))"
  by (simp add: fromFileAsync_def exclusive_fromString split: option.splits)

lemma exclusive_fallback:
  "exclusive s \<Longrightarrow> exclusive (snd (seq (\<lambda>this. (None, clear this)) (setDefault I) s))"
  by (rule seq_preserves [where P = exclusive]) (simp_all add: exclusive_clear exclusive_setDefault)

lemma exclusive_fromSystem: "exclusive s \<Longrightarrow> exclusive (snd (fromSystem U I E s))"
  unfolding fromSystem_def
  apply (rule seq_preserves [where P = exclusive])
    apply (cases "getSystem E")
     apply (simp add: exclusive_fallback)
    apply simp
    apply (rule try_catch_preserves [where P = exclusive])
      apply (simp_all add: exclusive_fromFile exclusive_fallback exclusive_readEnv)
  done

lemma exclusive_fromSystemAsync: "exclusive s \<Longrightarrow> exclusive (snd (fromSystemAsync U I E s))"
  unfolding fromSystemAsync_def
  apply (rule seq_preserves [where P = exclusive])
    apply (cases "getSystem E")
     apply (simp add: exclusive_fallback)
    apply simp
    apply (rule try_catch_preserves [where P = exclusive])
      apply (simp_all add: exclusive_fromFileAsync exclusive_fallback exclusive_readEnv)
  done

lemma reachable_exclusive: "reachable U I this \<Longrightarrow> exclusive this"
proof (induction rule: reachable.induct)
  case r_new
  show ?case by (simp add: exclusive_def new_ResolvConf_def)
next
  case (r_inject this obj)
  then show ?case by (simp add: exclusive_def inject_def)
next
  case (r_inject_self this)
  then show ?case by (simp add: exclusive_def inject_self_def)
next
  case (r_clone this)
  then show ?case by (simp add: exclusive_def clone_def inject_def)
next
  case (r_clear this)
  show ?case by (rule exclusive_clear)
next
  case (r_clearServers this)
  then show ?case by (simp add: exclusive_def clearServers_def)
qed (simp_all add: exclusive_setServers exclusive_setDefault setLocal_def setGoogle_def
      setOpenDNS_def exclusive_addServer exclusive_setDomain' exclusive_setSearch
      exclusive_setSort exclusive_parseServer exclusive_parseDomain exclusive_parseSearch
      exclusive_parseSort exclusive_parseOptions exclusive_fromString exclusive_readEnv
      exclusive_fromFile exclusive_fromSystem exclusive_fromFileAsync
      exclusive_fromSystemAsync)


text \<open>
  C3, amended. In every state a configuration can reach through its methods, \<open>domain\<close>
  and \<open>search\<close> are not both set. A successful \<open>setDomain\<close> leaves \<open>search\<close> null. A
  \<open>setSearch\<close> whose argument has at most 256 characters leaves \<open>domain\<close> null, whether it
  returns or throws; one with a longer argument throws at once and leaves the object, its
  \<open>domain\<close> included, as it was.
\<close>

theorem domain_search_exclusive:
  "reachable U I this \<Longrightarrow>
   (domain this = None \<or> search this = None)
   \<and> (fst (setDomain U d this) = None \<longrightarrow> search (snd (setDomain U d this)) = None)
   \<and> (length list \<le> 256 \<longrightarrow> domain (snd (setSearch U list this)) = None)
   \<and> (length list > 256 \<longrightarrow> snd (setSearch U list this) = this)"
proof -
  assume "reachable U I this"
  then have "exclusive this" by (rule reachable_exclusive)
  then show ?thesis
    by (simp add: exclusive_def setDomain_def setSearch_short setSearch_long)
qed

theorem domain_search_exclusive_witness:
  "reachable spec_util spec_IP (snd (setDomain spec_util ''a'' new_ResolvConf))
   \<and> domain (snd (setDomain spec_util ''a'' new_ResolvConf)) = Some ''a.''
   \<and> search (snd (setDomain spec_util ''a'' new_ResolvConf)) = None
   \<and> domain (snd (setSearch spec_util ''b c'' (snd (setDomain spec_util ''a'' new_ResolvConf)))) = None
   \<and> snd (setSearch spec_util (replicate 257 CHR ''a'') (snd (setDomain spec_util ''a'' new_ResolvConf)))
       = snd (setDomain spec_util ''a'' new_ResolvConf)"
proof -
  have r: "reachable spec_util spec_IP (snd (setDomain spec_util ''a'' new_ResolvConf))"
    by (rule r_setDomain) (rule r_new)
  have d: "domain (snd (setDomain spec_util ''a'' new_ResolvConf)) = Some ''a.''"
    by code_simp
  show ?thesis
    using r d domain_search_exclusive [OF r, of "''a''" "''b c''"]
      domain_search_exclusive [OF r, of "''a''" "replicate 257 CHR ''a''"]
    by simp
qed

theorem setSearch_long_keeps_domain:
  "domain (snd (setSearch spec_util (replicate 257 CHR ''a'')
             (snd (setDomain spec_util ''a'' new_ResolvConf)))) = Some ''a.''"
proof -
  have d: "domain (snd (setDomain spec_util ''a'' new_ResolvConf)) = Some ''a.''"
    by code_simp
  have l: "256 < length (replicate 257 CHR ''a'')" by simp
  show ?thesis
    by (simp add: setSearch_long [OF l] d)
qed

section \<open>Numeric options\<close>

lemma indexOf_at: "d \<notin> set p \<Longrightarrow> indexOf d (p @ d # r) = Some (length p)"
  by (induction p) auto

lemma parse_option_cut:
  "CHR '':'' \<notin> set nm \<Longrightarrow>
   (case indexOf CHR '':'' (nm @ CHR '':'' # a) of
      Some i \<Rightarrow> (substring (nm @ CHR '':'' # a) 0 i, substring_from (nm @ CHR '':'' # a) (i + 1))
    | None \<Rightarrow> ([], [])) = (nm, a)"
  by (simp add: indexOf_at substring_def substring_from_def)

lemma parse_option_ndots:
  "parse_option U (''ndots:'' @ a) this =
     (case parseU8 U a of None \<Rightarrow> this | Some n \<Rightarrow> this\<lparr>dots := min 15 n\<rparr>)"
  using parse_option_cut [of "''ndots''" a] by (simp add: parse_option_def)

lemma parse_option_timeout:
  "parse_option U (''timeout:'' @ a) this =
     (case parseU8 U a of None \<Rightarrow> this | Some n \<Rightarrow> this\<lparr>timeout := min 30 n\<rparr>)"
  using parse_option_cut [of "''timeout''" a] by (simp add: parse_option_def)

lemma parse_option_attempts:
  "parse_option U (''attempts:'' @ a) this =
     (case parseU8 U a of None \<Rightarrow> this | Some n \<Rightarrow> this\<lparr>attempts := min 5 n\<rparr>)"
  using parse_option_cut [of "''attempts''" a] by (simp add: parse_option_def)

lemma options_loop_foldl:
  "options_loop U opts this = foldl (\<lambda>s t. parse_option U t s) this opts"
  by (induction opts arbitrary: this) simp_all

text \<open>
  C7. A token \<open>ndots:N\<close> sets \<open>dots\<close> to \<open>min N 15\<close>, \<open>timeout:N\<close> sets \<open>timeout\<close> to
  \<open>min N 30\<close> and \<open>attempts:N\<close> sets \<open>attempts\<close> to \<open>min N 5\<close>, for every \<open>N\<close> the numeric
  parser accepts; a token whose argument the parser rejects leaves the object as it is.
  \<open>parseOptions\<close> applies the tokens of the line one after the other and never throws, so
  the tokens after a rejected one are still read. With a parser that reads 20 and 9, the
  line \<open>ndots:20 attempts:9\<close> gives \<open>dots = 15\<close> and \<open>attempts = 5\<close>.
\<close>

theorem parseOptions_numeric_clamped:
  "parse_option U (''ndots:'' @ a) this =
     (case parseU8 U a of None \<Rightarrow> this | Some n \<Rightarrow> this\<lparr>dots := min n 15\<rparr>)
   \<and> parse_option U (''timeout:'' @ a) this =
     (case parseU8 U a of None \<Rightarrow> this | Some n \<Rightarrow> this\<lparr>timeout := min n 30\<rparr>)
   \<and> parse_option U (''attempts:'' @ a) this =
     (case parseU8 U a of None \<Rightarrow> this | Some n \<Rightarrow> this\<lparr>attempts := min n 5\<rparr>)
   \<and> parseOptions U line this =
     (None, foldl (\<lambda>s t. parse_option U t s) this (split_ws (toLowerCase (trim line))))
   \<and> (parseU8 U ''20'' = Some 20 \<and> parseU8 U ''9'' = Some 9 \<longrightarrow>
        parseOptions U ''ndots:20 attempts:9'' this = (None, this\<lparr>dots := 15, attempts := 5\<rparr>))
   \<and> (parseU8 U ''x'' = None \<and> parseU8 U ''9'' = Some 9 \<longrightarrow>
        parseOptions U ''ndots:x attempts:9'' this = (None, this\<lparr>attempts := 5\<rparr>))"
proof -
  have t1: "split_ws (toLowerCase (trim ''ndots:20 attempts:9'')) = [''ndots:'' @ ''20'', ''attempts:'' @ ''9'']"
    by code_simp
  have t2: "split_ws (toLowerCase (trim ''ndots:x attempts:9'')) = [''ndots:'' @ ''x'', ''attempts:'' @ ''9'']"
    by code_simp
  have e1: "parseU8 U ''20'' = Some 20 \<Longrightarrow> parseU8 U ''9'' = Some 9 \<Longrightarrow>
      options_loop U [''ndots:'' @ ''20'', ''attempts:'' @ ''9''] this = this\<lparr>dots := 15, attempts := 5\<rparr>"
    by (simp only: options_loop.simps parse_option_ndots parse_option_attempts) simp
  have e2: "parseU8 U ''x'' = None \<Longrightarrow> parseU8 U ''9'' = Some 9 \<Longrightarrow>
      options_loop U [''ndots:'' @ ''x'', ''attempts:'' @ ''9''] this = this\<lparr>attempts := 5\<rparr>"
    by (simp only: options_loop.simps parse_option_ndots parse_option_attempts) simp
  show ?thesis
    using e1 e2
    by (simp only: parse_option_ndots parse_option_timeout parse_option_attempts
        parseOptions_def options_loop_foldl [symmetric] t1 t2 min.commute [of _ 15]
        min.commute [of _ 30] min.commute [of _ 5]) simp
qed

theorem parseOptions_numeric_clamped_witness:
  "parseU8 spec_util ''20'' = Some 20 \<and> parseU8 spec_util ''9'' = Some 9
   \<and> parseU8 spec_util ''x'' = None
   \<and> parseOptions spec_util ''ndots:20 attempts:9'' new_ResolvConf
        = (None, new_ResolvConf\<lparr>dots := 15, attempts := 5\<rparr>)
   \<and> parseOptions spec_util ''ndots:x attempts:9'' new_ResolvConf
        = (None, new_ResolvConf\<lparr>attempts := 5\<rparr>)"
proof -
  have p: "parseU8 spec_util ''20'' = Some 20" "parseU8 spec_util ''9'' = Some 9"
    "parseU8 spec_util ''x'' = None"
    by code_simp+
  show ?thesis
    using p parseOptions_numeric_clamped [of spec_util "[]" new_ResolvConf "[]"]
    by simp
qed

section \<open>Forgiving line parsing\<close>

lemma try_catch_ok_no_error: "fst (try_catch f ok s) = None"
  by (cases "f s") (auto simp: try_catch_def ok_def split: option.splits)

lemma try_catch_ok_error: "fst (f s) \<noteq> None \<Longrightarrow> try_catch f ok s = (None, snd (f s))"
  by (cases "f s") (auto simp: try_catch_def ok_def split: option.splits)

lemma try_catch_ok_success: "fst (f s) = None \<Longrightarrow> try_catch f ok s = (None, snd (f s))"
  by (cases "f s") (auto simp: try_catch_def ok_def split: option.splits)

lemma for_each_no_error:
  "(\<And>x s. fst (f x s) = None) \<Longrightarrow> fst (for_each f xs s) = None"
proof (induction xs arbitrary: s)
  case Nil
  show ?case by simp
next
  case (Cons x xs)
  from Cons.prems [of x s] obtain s' where "f x s = (None, s')"
    by (cases "f x s") auto
  with Cons.IH [OF Cons.prems] show ?case by simp
qed

lemma config_line_no_error: "fst (config_line U I chunk s) = None"
  by (simp add: config_line_def Let_def parseServer_def parseDomain_def parseSearch_def
      parseSort_def parseOptions_def try_catch_ok_no_error split: option.splits)

lemma fromString_no_error: "fst (fromString U I text s) = None"
  unfolding fromString_def by (rule for_each_no_error) (rule config_line_no_error)

lemma addServer_error_unchanged:
  "fst (addServer I server s) \<noteq> None \<Longrightarrow> snd (addServer I server s) = s"
  by (auto simp: addServer_def split: option.splits if_splits)

lemma config_line_nameserver:
  assumes "trim chunk = ''nameserver '' @ t"
  shows "config_line U I chunk s = parseServer I t s"
proof -
  have "indexOf CHR '' '' (''nameserver'' @ CHR '' '' # t) = Some (length ''nameserver'')"
    by (rule indexOf_at) simp
  then have i: "indexOf CHR '' '' (''nameserver '' @ t) = Some 10" by simp
  have l: "toLowerCase ''nameserver'' = ''nameserver''" by code_simp
  show ?thesis
    using l by (simp add: config_line_def assms i substring_def substring_from_def)
qed

lemma blank_lines:
  "list_all (\<lambda>chunk. trim chunk = []) rest \<Longrightarrow> for_each (config_line U I) rest s = (None, s)"
  by (induction rest) (simp_all add: config_line_def)

lemma getServers_addServer:
  "fromHost I server 53 = Some a \<Longrightarrow> type a = 4 \<or> type a = 6
   \<Longrightarrow> getServers (snd (addServer I server (clear s))) = [Address.hostname a]"
  by (auto simp: addServer_def getServers_def set_key_def clear_def split: option.splits)

lemma addServer_success:
  "fromHost I server 53 = Some a \<Longrightarrow> type a = 4 \<or> type a = 6
   \<Longrightarrow> fst (addServer I server s) = None"
  by (auto simp: addServer_def)

text \<open>
  C8. \<open>fromString\<close> never throws, whatever the text. The wrappers \<open>parseServer\<close>,
  \<open>parseDomain\<close>, \<open>parseSearch\<close> and \<open>parseSort\<close> never throw, whatever their setter
  does; a nameserver line whose address \<open>addServer\<close> rejects leaves the object unchanged.
  So a text whose lines are a nameserver line with a rejected address, a nameserver line
  with an accepted one and blank lines only after them gives a configuration with exactly
  one server, the accepted one.
\<close>

theorem fromString_never_aborts:
  "fst (fromString U I content this) = None
   \<and> fst (parseServer I t this) = None \<and> fst (parseDomain U t this) = None
   \<and> fst (parseSearch U t this) = None \<and> fst (parseSort I t this) = None
   \<and> (fst (addServer I (toLowerCase (trim t)) this) \<noteq> None \<longrightarrow>
        parseServer I t this = (None, this))
   \<and> (split_char CHR 0x0A (normalize_text content) = chunk1 # chunk2 # rest
        \<and> list_all (\<lambda>chunk. trim chunk = []) rest
        \<and> trim chunk1 = ''nameserver '' @ t1 \<and> trim chunk2 = ''nameserver '' @ t2
        \<and> fst (addServer I (toLowerCase (trim t1)) (clear this)) \<noteq> None
        \<and> fromHost I (toLowerCase (trim t2)) 53 = Some a \<and> (type a = 4 \<or> type a = 6)
      \<longrightarrow> fromString U I content this = (None, snd (addServer I (toLowerCase (trim t2)) (clear this)))
          \<and> getServers (snd (fromString U I content this)) = [Address.hostname a])"
proof -
  have wrappers: "fst (parseServer I t this) = None \<and> fst (parseDomain U t this) = None
      \<and> fst (parseSearch U t this) = None \<and> fst (parseSort I t this) = None"
    by (simp add: parseServer_def parseDomain_def parseSearch_def parseSort_def
        try_catch_ok_no_error)
  have swallowed: "parseServer I t s = (None, s)"
    if "fst (addServer I (toLowerCase (trim t)) s) \<noteq> None" for t s
    using that addServer_error_unchanged [OF that]
    by (simp add: parseServer_def try_catch_ok_error)
  have two: "fromString U I content this = (None, snd (addServer I (toLowerCase (trim t2)) (clear this)))
      \<and> getServers (snd (fromString U I content this)) = [Address.hostname a]"
    if lines: "split_char CHR 0x0A (normalize_text content) = chunk1 # chunk2 # rest"
      and blank: "list_all (\<lambda>chunk. trim chunk = []) rest"
      and c1: "trim chunk1 = ''nameserver '' @ t1" and c2: "trim chunk2 = ''nameserver '' @ t2"
      and bad: "fst (addServer I (toLowerCase (trim t1)) (clear this)) \<noteq> None"
      and good: "fromHost I (toLowerCase (trim t2)) 53 = Some a" "type a = 4 \<or> type a = 6"
  proof -
    have s1: "config_line U I chunk1 (clear this) = (None, clear this)"
      by (simp add: config_line_nameserver [OF c1] swallowed [OF bad])
    have "fst (addServer I (toLowerCase (trim t2)) (clear this)) = None"
      using good by (rule addServer_success)
    then have s2: "config_line U I chunk2 (clear this)
        = (None, snd (addServer I (toLowerCase (trim t2)) (clear this)))"
      by (simp add: config_line_nameserver [OF c2] parseServer_def try_catch_ok_success)
    have "fromString U I content this
        = (None, snd (addServer I (toLowerCase (trim t2)) (clear this)))"
      by (simp add: fromString_def lines s1 s2 blank_lines [OF blank])
    then show ?thesis
      using getServers_addServer [OF good] by simp
  qed
  have sw: "fst (addServer I (toLowerCase (trim t)) this) \<noteq> None \<longrightarrow>
      parseServer I t this = (None, this)"
    using swallowed [of t this] by blast
  have ne: "fst (fromString U I content this) = None"
    by (rule fromString_no_error)
  from ne wrappers sw two show ?thesis
    by blast
qed

theorem fromString_never_aborts_witness:
  "split_char CHR 0x0A (normalize_text two_nameservers)
      = [''nameserver not.an.address'', ''nameserver 8.8.8.8'', []]
   \<and> fst (addServer spec_IP ''not.an.address'' (clear new_ResolvConf)) \<noteq> None
   \<and> fst (addServer spec_IP ''8.8.8.8'' (clear new_ResolvConf)) = None
   \<and> fst (fromString spec_util spec_IP two_nameservers new_ResolvConf) = None
   \<and> getServers (snd (fromString spec_util spec_IP two_nameservers new_ResolvConf)) = [''8.8.8.8'']"
proof -
  let ?a = "\<lparr>type = 4, host = ''8.8.8.8'', port = 53, hostname = ''8.8.8.8'', key = None\<rparr>"
  have l: "split_char CHR 0x0A (normalize_text two_nameservers)
      = ''nameserver not.an.address'' # ''nameserver 8.8.8.8'' # [[]]"
    by code_simp
  have r: "list_all (\<lambda>chunk. trim chunk = []) [[]]"
    by code_simp
  have c1: "trim ''nameserver not.an.address'' = ''nameserver '' @ ''not.an.address''"
    by code_simp
  have c2: "trim ''nameserver 8.8.8.8'' = ''nameserver '' @ ''8.8.8.8''"
    by code_simp
  have t1: "toLowerCase (trim ''not.an.address'') = ''not.an.address''"
    by code_simp
  have t2: "toLowerCase (trim ''8.8.8.8'') = ''8.8.8.8''"
    by code_simp
  have b: "fst (addServer spec_IP ''not.an.address'' (clear new_ResolvConf)) \<noteq> None"
    by code_simp
  have g: "fromHost spec_IP ''8.8.8.8'' 53 = Some ?a"
    by code_simp
  have g': "fst (addServer spec_IP ''8.8.8.8'' (clear new_ResolvConf)) = None"
    by code_simp
  have "type ?a = 4 \<or> type ?a = 6" by simp
  with l r c1 c2 b g
    fromString_never_aborts [where U = spec_util and I = spec_IP and content = two_nameservers
      and this = new_ResolvConf and ?chunk1.0 = "''nameserver not.an.address''"
      and ?chunk2.0 = "''nameserver 8.8.8.8''" and rest = "[[]]"
      and ?t1.0 = "''not.an.address''" and ?t2.0 = "''8.8.8.8''" and a = ?a]
  have "fst (fromString spec_util spec_IP two_nameservers new_ResolvConf) = None
    \<and> getServers (snd (fromString spec_util spec_IP two_nameservers new_ResolvConf))
        = [Address.hostname ?a]"
    by (simp only: t1 t2) blast
  with l b g' show ?thesis by simp
qed

section \<open>The system loader\<close>

lemma clear_const: "clear s = clear s'"
  by (cases s, cases s') (simp add: clear_def)

lemma accepts_for_each:
  "accepts I servers \<Longrightarrow> fst (for_each (addServer I) servers s) = None"
proof (induction servers arbitrary: s)
  case Nil
  show ?case by simp
next
  case (Cons x xs)
  from Cons.prems obtain a where a: "fromHost I x 53 = Some a" "type a = 4 \<or> type a = 6"
    and rest: "accepts I xs"
    by (auto simp: accepts_def split: option.splits)
  from a obtain s' where "addServer I x s = (None, s')"
    by (auto simp: addServer_def)
  with Cons.IH [OF rest] show ?case by simp
qed

lemma setDefault_no_error: "accepts I GOOGLE_NS \<Longrightarrow> fst (setDefault I s) = None"
  by (simp add: setDefault_def setGoogle_def setServers_def accepts_for_each)

lemma seq_no_error:
  "(\<And>s. fst (f s) = None) \<Longrightarrow> (\<And>s. fst (g s) = None) \<Longrightarrow> fst (seq f g s) = None"
proof -
  assume f: "\<And>s. fst (f s) = None" and g: "\<And>s. fst (g s) = None"
  from f [of s] obtain s' where "f s = (None, s')"
    by (cases "f s") auto
  with g [of s'] show ?thesis
    by (simp add: seq_def)
qed

lemma readEnv_no_error: "fst (readEnv U E s) = None"
  unfolding readEnv_def
  by (rule seq_no_error)
     (simp_all add: parseDomain_def try_catch_ok_no_error parseOptions_def ok_def)

lemma readEnv_eq: "readEnv U E s = (None, snd (readEnv U E s))"
  using readEnv_no_error [of U E s] by (cases "readEnv U E s") simp

lemma fallback_eq:
  "accepts I GOOGLE_NS \<Longrightarrow>
   seq (\<lambda>this. (None, clear this)) (setDefault I) s = (None, snd (setDefault I (clear this)))"
  using setDefault_no_error [of I "clear s"] clear_const [of s this]
  by (cases "setDefault I (clear s)") (simp add: seq_def)

lemma load_or_default:
  assumes "accepts I GOOGLE_NS"
  shows "try_catch load (seq (\<lambda>this. (None, clear this)) (setDefault I)) this =
     (None, if fst (load this) = None then snd (load this) else snd (setDefault I (clear this)))"
  using fallback_eq [OF assms, of "snd (load this)" this]
  by (cases "load this") (auto simp: try_catch_def split: option.splits)

lemma seq_after: "f s = (None, s') \<Longrightarrow> seq f g s = g s'"
  by (simp add: seq_def)

lemma clear_new: "clear this = new_ResolvConf"
  by (cases this) (simp add: clear_def new_ResolvConf_def)

lemma clearServers_new: "clearServers new_ResolvConf = new_ResolvConf"
  by (simp add: clearServers_def new_ResolvConf_def)

lemma add_servers_eq:
  "accepts I servers \<Longrightarrow>
   for_each (addServer I) servers s =
     (None, s\<lparr>ns4 := ns4 s @ filter (\<lambda>addr. type addr = 4)
                           (List.map_filter (\<lambda>server. fromHost I server 53) servers),
              ns6 := ns6 s @ filter (\<lambda>addr. type addr = 6)
                           (List.map_filter (\<lambda>server. fromHost I server 53) servers),
              keys := foldl add_key (keys s)
                           (List.map_filter (\<lambda>server. fromHost I server 53) servers)\<rparr>)"
proof (induction servers arbitrary: s)
  case Nil
  show ?case by (simp add: List.map_filter_simps)
next
  case (Cons x xs)
  from Cons.prems obtain a where a: "fromHost I x 53 = Some a" "type a = 4 \<or> type a = 6"
    and rest: "accepts I xs"
    by (auto simp: accepts_def split: option.splits)
  show ?case
    using a Cons.IH [OF rest]
    by (cases "key a")
       (auto simp: addServer_def set_key_def add_key_def List.map_filter_simps)
qed

lemma setDefault_eq: "accepts I GOOGLE_NS \<Longrightarrow> setDefault I (clear this) = (None, default_conf I)"
  by (simp add: setDefault_def setGoogle_def setServers_def clear_new clearServers_new
      add_servers_eq default_conf_def default_servers_def)
     (simp add: new_ResolvConf_def)

lemma parseDomain_eq:
  "parseDomain U d s =
     (None, if isName U (toLowerCase (trim d))
            then s\<lparr>search := None, domain := Some (fqdn U (toLowerCase (trim d)))\<rparr> else s)"
  by (simp add: parseDomain_def try_catch_def setDomain_def ok_def)

lemma readEnv_eq_overrides: "readEnv U E s = (None, env_overrides U E s)"
  by (cases "LOCALDOMAIN E"; cases "RES_OPTIONS E")
     (simp_all add: readEnv_def seq_def ok_def parseDomain_eq parseOptions_def
        options_loop_foldl env_overrides_def apply_LOCALDOMAIN_def apply_RES_OPTIONS_def)


text \<open>
  C2. With an address library that parses the four default servers, \<open>fromSystem\<close> and
  \<open>fromSystemAsync\<close> never throw. \<open>clear\<close> makes the object equal to a fresh one, and
  \<open>setDefault\<close> on it gives the empty configuration with the default servers. On a
  platform without a configuration path, and when loading the file fails, the result is
  that configuration with the overrides of the environment applied; when loading succeeds
  it is the loaded configuration with the overrides applied. \<open>readEnv\<close> is exactly the two
  overrides: \<^verbatim>\<open>LOCALDOMAIN\<close> as a domain directive, then \<^verbatim>\<open>RES_OPTIONS\<close> as an options
  line. So the environment takes effect in every case, on a default configuration too.
\<close>

theorem fromSystem_falls_back:
  assumes "accepts I GOOGLE_NS"
  shows "fst (fromSystem U I E this) = None \<and> fst (fromSystemAsync U I E this) = None
    \<and> fst (setDefault I (clear this)) = None
    \<and> (getSystem E = None \<longrightarrow>
         fromSystem U I E this = readEnv U E (snd (setDefault I (clear this)))
         \<and> fromSystemAsync U I E this = readEnv U E (snd (setDefault I (clear this))))
    \<and> (getSystem E = Some path \<and> fst (fromFile U I E path this) \<noteq> None \<longrightarrow>
         fromSystem U I E this = readEnv U E (snd (setDefault I (clear this))))
    \<and> (getSystem E = Some path \<and> fst (fromFile U I E path this) = None \<longrightarrow>
         fromSystem U I E this = readEnv U E (snd (fromFile U I E path this)))
    \<and> (getSystem E = Some path \<and> fst (fromFileAsync U I E path this) \<noteq> None \<longrightarrow>
         fromSystemAsync U I E this = readEnv U E (snd (setDefault I (clear this))))
    \<and> (getSystem E = Some path \<and> fst (fromFileAsync U I E path this) = None \<longrightarrow>
         fromSystemAsync U I E this = readEnv U E (snd (fromFileAsync U I E path this)))
    \<and> clear this = new_ResolvConf
    \<and> setDefault I (clear this) = (None, default_conf I)
    \<and> readEnv U E s = (None, env_overrides U E s)
    \<and> (getSystem E = None \<longrightarrow>
         fromSystem U I E this = (None, env_overrides U E (default_conf I))
         \<and> fromSystemAsync U I E this = (None, env_overrides U E (default_conf I)))
    \<and> (getSystem E = Some path \<and> fst (fromFile U I E path this) \<noteq> None \<longrightarrow>
         fromSystem U I E this = (None, env_overrides U E (default_conf I)))
    \<and> (getSystem E = Some path \<and> fst (fromFile U I E path this) = None \<longrightarrow>
         fromSystem U I E this = (None, env_overrides U E (snd (fromFile U I E path this))))
    \<and> (getSystem E = Some path \<and> fst (fromFileAsync U I E path this) \<noteq> None \<longrightarrow>
         fromSystemAsync U I E this = (None, env_overrides U E (default_conf I)))
    \<and> (getSystem E = Some path \<and> fst (fromFileAsync U I E path this) = None \<longrightarrow>
         fromSystemAsync U I E this
           = (None, env_overrides U E (snd (fromFileAsync U I E path this))))"
proof -
  have d: "setDefault I (clear this) = (None, default_conf I)"
    using assms by (rule setDefault_eq)
  then have d': "snd (setDefault I (clear this)) = default_conf I"
    by simp
  have none: "fromSystem U I E this = readEnv U E (snd (setDefault I (clear this)))
      \<and> fromSystemAsync U I E this = readEnv U E (snd (setDefault I (clear this)))"
    if "getSystem E = None"
    using that fallback_eq [OF assms, of this this]
    by (simp add: fromSystem_def fromSystemAsync_def seq_after)
  have some: "fromSystem U I E this =
        readEnv U E (if fst (fromFile U I E f this) = None then snd (fromFile U I E f this)
                     else snd (setDefault I (clear this)))"
    if "getSystem E = Some f" for f
    using that load_or_default [OF assms, of "fromFile U I E f" this]
    by (simp add: fromSystem_def seq_after)
  have some_async: "fromSystemAsync U I E this =
        readEnv U E (if fst (fromFileAsync U I E f this) = None
                     then snd (fromFileAsync U I E f this)
                     else snd (setDefault I (clear this)))"
    if "getSystem E = Some f" for f
    using that load_or_default [OF assms, of "fromFileAsync U I E f" this]
    by (simp add: fromSystemAsync_def seq_after)
  have e1: "fst (fromSystem U I E this) = None"
    using none some by (cases "getSystem E") (simp_all add: readEnv_no_error)
  have e2: "fst (fromSystemAsync U I E this) = None"
    using none some_async by (cases "getSystem E") (simp_all add: readEnv_no_error)
  have old: "fst (fromSystem U I E this) = None \<and> fst (fromSystemAsync U I E this) = None
    \<and> fst (setDefault I (clear this)) = None
    \<and> (getSystem E = None \<longrightarrow>
         fromSystem U I E this = readEnv U E (snd (setDefault I (clear this)))
         \<and> fromSystemAsync U I E this = readEnv U E (snd (setDefault I (clear this))))
    \<and> (getSystem E = Some path \<and> fst (fromFile U I E path this) \<noteq> None \<longrightarrow>
         fromSystem U I E this = readEnv U E (snd (setDefault I (clear this))))
    \<and> (getSystem E = Some path \<and> fst (fromFile U I E path this) = None \<longrightarrow>
         fromSystem U I E this = readEnv U E (snd (fromFile U I E path this)))
    \<and> (getSystem E = Some path \<and> fst (fromFileAsync U I E path this) \<noteq> None \<longrightarrow>
         fromSystemAsync U I E this = readEnv U E (snd (setDefault I (clear this))))
    \<and> (getSystem E = Some path \<and> fst (fromFileAsync U I E path this) = None \<longrightarrow>
         fromSystemAsync U I E this = readEnv U E (snd (fromFileAsync U I E path this)))"
    using e1 e2 d none some [of path] some_async [of path] by simp
  have new: "(getSystem E = None \<longrightarrow>
         fromSystem U I E this = (None, env_overrides U E (default_conf I))
         \<and> fromSystemAsync U I E this = (None, env_overrides U E (default_conf I)))
    \<and> (getSystem E = Some path \<and> fst (fromFile U I E path this) \<noteq> None \<longrightarrow>
         fromSystem U I E this = (None, env_overrides U E (default_conf I)))
    \<and> (getSystem E = Some path \<and> fst (fromFile U I E path this) = None \<longrightarrow>
         fromSystem U I E this = (None, env_overrides U E (snd (fromFile U I E path this))))
    \<and> (getSystem E = Some path \<and> fst (fromFileAsync U I E path this) \<noteq> None \<longrightarrow>
         fromSystemAsync U I E this = (None, env_overrides U E (default_conf I)))
    \<and> (getSystem E = Some path \<and> fst (fromFileAsync U I E path this) = None \<longrightarrow>
         fromSystemAsync U I E this
           = (None, env_overrides U E (snd (fromFileAsync U I E path this))))"
    using none some [of path] some_async [of path]
    by (simp add: d' readEnv_eq_overrides)
  from old new d clear_new [of this] readEnv_eq_overrides [of U E s] show ?thesis
    by blast
qed

theorem fromSystem_falls_back_witness:
  "accepts spec_IP GOOGLE_NS
   \<and> getSystem example_env = Some ''/etc/resolv.conf''
   \<and> fst (fromFile spec_util spec_IP example_env ''/etc/resolv.conf'' used_conf) \<noteq> None
   \<and> search used_conf = Some [''old.example.''] \<and> rotate used_conf = True
   \<and> fst (fromSystem spec_util spec_IP example_env used_conf) = None
   \<and> getServers (snd (fromSystem spec_util spec_IP example_env used_conf)) = GOOGLE_NS
   \<and> domain (snd (fromSystem spec_util spec_IP example_env used_conf)) = Some ''test.''
   \<and> search (snd (fromSystem spec_util spec_IP example_env used_conf)) = None
   \<and> dots (snd (fromSystem spec_util spec_IP example_env used_conf)) = 15
   \<and> attempts (snd (fromSystem spec_util spec_IP example_env used_conf)) = 5
   \<and> timeout (snd (fromSystem spec_util spec_IP example_env used_conf)) = 5
   \<and> rotate (snd (fromSystem spec_util spec_IP example_env used_conf)) = False
   \<and> getSystem example_env_win = None
   \<and> getServers (snd (fromSystem spec_util spec_IP example_env_win used_conf)) = GOOGLE_NS
   \<and> search (snd (fromSystem spec_util spec_IP example_env_win used_conf)) = None
   \<and> timeout (snd (fromSystem spec_util spec_IP example_env_win used_conf)) = 30"
proof -
  let ?r = "env_overrides spec_util example_env (default_conf spec_IP)"
  let ?w = "env_overrides spec_util example_env_win (default_conf spec_IP)"
  have a: "accepts spec_IP GOOGLE_NS"
    by code_simp
  have g: "getSystem example_env = Some ''/etc/resolv.conf''"
    by code_simp
  have f: "fst (fromFile spec_util spec_IP example_env ''/etc/resolv.conf'' used_conf) \<noteq> None"
    by code_simp
  have u: "search used_conf = Some [''old.example.''] \<and> rotate used_conf = True"
    by code_simp
  have r: "getServers ?r = GOOGLE_NS" "domain ?r = Some ''test.''" "search ?r = None"
    "dots ?r = 15" "attempts ?r = 5" "timeout ?r = 5" "rotate ?r = False"
    by code_simp+
  have gw: "getSystem example_env_win = None"
    by code_simp
  have w: "getServers ?w = GOOGLE_NS" "search ?w = None" "timeout ?w = 30"
    by code_simp+
  from g f fromSystem_falls_back [OF a, of spec_util example_env used_conf "''/etc/resolv.conf''"]
  have e: "fromSystem spec_util spec_IP example_env used_conf = (None, ?r)"
    by blast
  from gw fromSystem_falls_back [OF a, of spec_util example_env_win used_conf]
  have ew: "fromSystem spec_util spec_IP example_env_win used_conf = (None, ?w)"
    by blast
  from a g f u r gw w show ?thesis
    by (simp only: e ew fst_conv snd_conv) simp
qed

section \<open>Answers from the hosts database\<close>

lemma types_distinct:
  "types_PTR \<noteq> types_A" "types_PTR \<noteq> types_AAAA" "types_PTR \<noteq> types_ANY"
  "types_A \<noteq> types_AAAA" "types_A \<noteq> types_ANY" "types_AAAA \<noteq> types_ANY"
  by (simp_all add: types_PTR_def types_A_def types_AAAA_def types_ANY_def)

lemma query_None: "query this n t = None \<longleftrightarrow> lookup this n = None"
  by (simp add: query_def Let_def split: option.splits)

lemma query_PTR:
  "lookup this n = Some entry \<Longrightarrow>
   query this n types_PTR = Some [answer_record n types_PTR (PTRRecord (name entry))]"
  by (simp add: query_def answer_record_def)

lemma query_A:
  "lookup this n = Some entry \<Longrightarrow> query this n types_A = Some (inet4_answer n entry)"
  using types_distinct
  by (cases "inet4 entry") (auto simp: query_def inet4_answer_def answer_record_def)

lemma query_AAAA:
  "lookup this n = Some entry \<Longrightarrow> query this n types_AAAA = Some (inet6_answer n entry)"
  using types_distinct
  by (cases "inet6 entry") (auto simp: query_def inet6_answer_def answer_record_def)

lemma query_ANY:
  "lookup this n = Some entry \<Longrightarrow>
   query this n types_ANY = Some (inet4_answer n entry @ inet6_answer n entry)"
  using types_distinct
  by (cases "inet4 entry"; cases "inet6 entry")
     (auto simp: query_def inet4_answer_def inet6_answer_def answer_record_def)

lemma query_other:
  "lookup this n = Some entry \<Longrightarrow> t \<noteq> types_PTR \<Longrightarrow> t \<noteq> types_A \<Longrightarrow> t \<noteq> types_AAAA
   \<Longrightarrow> t \<noteq> types_ANY \<Longrightarrow> query this n t = Some []"
  by (simp add: query_def)

text \<open>
  C4. \<open>query\<close> returns null exactly when \<open>lookup\<close> finds no entry for the name. When
  there is an entry, a PTR query returns exactly one record, whose target is the \<open>name\<close>
  of the entry; an A query returns one record for the IPv4 address if the entry has one,
  an AAAA query one record for the IPv6 address if the entry has one, and an ANY query
  both, the IPv4 record first; every record carries the query name, a time to live of
  300 and class IN. A query of any other type returns the empty list.
\<close>

theorem query_answers:
  "(query this n t = None \<longleftrightarrow> lookup this n = None)
   \<and> (lookup this n = Some entry \<longrightarrow>
        query this n types_PTR = Some [answer_record n types_PTR (PTRRecord (name entry))]
        \<and> query this n types_A = Some (inet4_answer n entry)
        \<and> query this n types_AAAA = Some (inet6_answer n entry)
        \<and> query this n types_ANY = Some (inet4_answer n entry @ inet6_answer n entry)
        \<and> (t \<noteq> types_PTR \<and> t \<noteq> types_A \<and> t \<noteq> types_AAAA \<and> t \<noteq> types_ANY \<longrightarrow>
             query this n t = Some []))"
  using query_None [of this n t] query_PTR [of this n entry] query_A [of this n entry]
    query_AAAA [of this n entry] query_ANY [of this n entry] query_other [of this n entry t]
  by blast

theorem query_answers_witness:
  "lookup example_hosts ''A.Example.'' = Some example_entry
   \<and> query example_hosts ''A.Example.'' types_PTR
       = Some [\<lparr>rr_name = ''A.Example.'', rr_type = 12, rr_class = 1, rr_ttl = 300,
                 rr_data = PTRRecord (Some ''a.example.'')\<rparr>]
   \<and> query example_hosts ''A.Example.'' types_A
       = Some [\<lparr>rr_name = ''A.Example.'', rr_type = 1, rr_class = 1, rr_ttl = 300,
                 rr_data = ARecord ''1.2.3.4''\<rparr>]
   \<and> query example_hosts ''A.Example.'' types_ANY
       = Some [\<lparr>rr_name = ''A.Example.'', rr_type = 1, rr_class = 1, rr_ttl = 300,
                 rr_data = ARecord ''1.2.3.4''\<rparr>,
               \<lparr>rr_name = ''A.Example.'', rr_type = 28, rr_class = 1, rr_ttl = 300,
                 rr_data = AAAARecord ''::1''\<rparr>]
   \<and> (16 :: 16 word) \<noteq> types_PTR \<and> (16 :: 16 word) \<noteq> types_A
   \<and> (16 :: 16 word) \<noteq> types_AAAA \<and> (16 :: 16 word) \<noteq> types_ANY
   \<and> query example_hosts ''A.Example.'' 16 = Some []
   \<and> lookup example_hosts ''b.example.'' = None
   \<and> query example_hosts ''b.example.'' types_A = None"
proof -
  have l: "lookup example_hosts ''A.Example.'' = Some example_entry"
    by code_simp
  have m: "lookup example_hosts ''b.example.'' = None"
    by code_simp
  have d: "(16 :: 16 word) \<noteq> types_PTR \<and> (16 :: 16 word) \<noteq> types_A
      \<and> (16 :: 16 word) \<noteq> types_AAAA \<and> (16 :: 16 word) \<noteq> types_ANY"
    by (simp add: types_PTR_def types_A_def types_AAAA_def types_ANY_def)
  have a: "inet4_answer ''A.Example.'' example_entry
      = [\<lparr>rr_name = ''A.Example.'', rr_type = 1, rr_class = 1, rr_ttl = 300,
                 rr_data = ARecord ''1.2.3.4''\<rparr>]"
    "inet6_answer ''A.Example.'' example_entry
      = [\<lparr>rr_name = ''A.Example.'', rr_type = 28, rr_class = 1, rr_ttl = 300,
                 rr_data = AAAARecord ''::1''\<rparr>]"
    "answer_record ''A.Example.'' types_PTR (PTRRecord (name example_entry))
      = \<lparr>rr_name = ''A.Example.'', rr_type = 12, rr_class = 1, rr_ttl = 300,
                 rr_data = PTRRecord (Some ''a.example.'')\<rparr>"
    by (simp_all add: inet4_answer_def inet6_answer_def answer_record_def example_entry_def
        types_A_def types_AAAA_def types_PTR_def classes_IN_def)
  from l m d query_answers [of example_hosts "''A.Example.''" 16 example_entry]
    query_answers [of example_hosts "''b.example.''" types_A example_entry]
  show ?thesis
    by (simp only: a) simp
qed

section \<open>Lines of a hosts file\<close>

lemma addHost_error_unchanged:
  "fst (addHost U I n a h s) \<noteq> None \<Longrightarrow> snd (addHost U I n a h s) = s"
  by (auto simp: addHost_def Let_def split: option.splits if_splits)

lemma try_addHost:
  "try_catch (addHost U I n a h) ok s = (None, add_or_skip U I a h s n)"
  using addHost_error_unchanged [of U I n a h s]
  by (cases "addHost U I n a h s")
     (auto simp: try_catch_def ok_def add_or_skip_def split: option.splits)

lemma names_loop_foldl:
  "names_loop U I parts a h i s = (None, foldl (add_or_skip U I a h) s (drop i parts))"
proof (induction "length parts - i" arbitrary: i s)
  case 0
  then show ?case by (subst names_loop.simps) simp
next
  case (Suc k)
  then have i: "i < length parts" and k: "k = length parts - Suc i" by simp_all
  have "names_loop U I parts a h i s
      = names_loop U I parts a h (Suc i) (add_or_skip U I a h s (parts ! i))"
    using i by (subst names_loop.simps) (simp add: try_addHost)
  also have "\<dots> = (None, foldl (add_or_skip U I a h) (add_or_skip U I a h s (parts ! i))
      (drop (Suc i) parts))"
    by (rule Suc.hyps(1) [OF k])
  also have "\<dots> = (None, foldl (add_or_skip U I a h) s (drop i parts))"
    using i by (simp add: Cons_nth_drop_Suc [symmetric])
  finally show ?case .
qed

lemma split_ws_from_nonempty: "split_ws_from cur s \<noteq> []"
  by (induction cur s rule: split_ws_from.induct) simp_all

lemma hosts_line_eq:
  "hosts_line U I chunk this =
     (None, if is_entry_line chunk then line_effect U I (split_ws (trim chunk)) this else this)"
proof (cases "is_entry_line chunk")
  case False
  then show ?thesis
    by (auto simp: hosts_line_def is_entry_line_def Let_def)
next
  case True
  let ?p = "split_ws (trim chunk)"
  have ne: "?p \<noteq> []" by (simp add: split_ws_def split_ws_from_nonempty)
  then have hd: "?p ! 0 = hd ?p" by (simp add: hd_conv_nth)
  have names: "drop 1 (if length ?p > 2 then butlast ?p else ?p) = line_names ?p"
    by (simp add: line_names_def drop_Suc butlast_tl)
  have "hosts_line U I chunk this =
      names_loop U I (if length ?p > 2 then butlast ?p else ?p) (hd ?p) (line_hostname ?p) 1 this"
    using True hd by (simp add: hosts_line_def is_entry_line_def Let_def line_hostname_def)
  also have "\<dots> = (None, line_effect U I ?p this)"
    by (simp only: names_loop_foldl names line_effect_def line_address_def)
  finally show ?thesis using True by simp
qed

lemma for_each_foldl:
  "(\<And>x s. fst (f x s) = None) \<Longrightarrow>
   for_each f xs s = (None, foldl (\<lambda>s x. snd (f x s)) s xs)"
proof (induction xs arbitrary: s)
  case Nil
  show ?case by simp
next
  case (Cons x xs)
  from Cons.prems [of x s] obtain s' where s': "f x s = (None, s')"
    by (cases "f x s") auto
  from Cons.IH [OF Cons.prems, of s'] s' show ?case
    by simp
qed

text \<open>
  C9. A chunk of a hosts file that is not blank and not a comment has this effect: with
  the fields of the trimmed line, field 0 is the address, the last field is the host name
  when there are more than two fields and is taken off, and every other field after the
  address is added by \<open>addHost\<close> with that address and host name, one after the other. A
  name for which \<open>addHost\<close> throws (a bad name, host name or address) is passed over with
  the database as it was before that call, and the names after it are still added. Blank
  lines and comments change nothing, \<open>fromString\<close> applies the chunks in order to the
  cleared database, and neither throws.
\<close>

theorem hosts_fromString_lines:
  "hosts_line U I chunk this =
     (None, if is_entry_line chunk then line_effect U I (split_ws (trim chunk)) this else this)
   \<and> add_or_skip U I address hname this n =
       (if fst (addHost U I n address hname this) = None
        then snd (addHost U I n address hname this) else this)
   \<and> hosts_fromString U I content this =
       (None, foldl (\<lambda>s chunk. snd (hosts_line U I chunk s)) (clearHosts this)
                (split_char CHR 0x0A (toLowerCase (normalize_text content))))"
proof -
  have a: "add_or_skip U I address hname this n =
       (if fst (addHost U I n address hname this) = None
        then snd (addHost U I n address hname this) else this)"
    by (cases "addHost U I n address hname this") (auto simp: add_or_skip_def)
  have "fst (hosts_line U I c s) = None" for c s
    by (simp add: hosts_line_eq)
  then have f: "hosts_fromString U I content this =
       (None, foldl (\<lambda>s chunk. snd (hosts_line U I chunk s)) (clearHosts this)
                (split_char CHR 0x0A (toLowerCase (normalize_text content))))"
    unfolding hosts_fromString_def by (rule for_each_foldl)
  from hosts_line_eq [of U I chunk this] a f show ?thesis
    by blast
qed

theorem hosts_fromString_lines_witness:
  "is_entry_line example_line
   \<and> split_ws (trim example_line) = [''1.2.3.4'', ''good.example'', ''b@d.example'', ''myhost'']
   \<and> fst (addHost spec_util spec_IP ''b@d.example'' ''1.2.3.4'' (Some ''myhost'') new_Hosts)
       = Some InvalidName
   \<and> lookup (snd (hosts_line spec_util spec_IP example_line new_Hosts)) ''good.example.''
       = Some \<lparr>name = Some ''good.example.'', inet4 = Some ''1.2.3.4'', inet6 = None,
               hostname = Some ''myhost.''\<rparr>
   \<and> lookup (snd (hosts_line spec_util spec_IP example_line new_Hosts)) ''b@d.example.'' = None
   \<and> lookup (snd (hosts_line spec_util spec_IP example_line new_Hosts)) ''myhost.'' = None"
proof -
  let ?after = "line_effect spec_util spec_IP (split_ws (trim example_line)) new_Hosts"
  have e: "is_entry_line example_line"
    by code_simp
  have f: "split_ws (trim example_line)
      = [''1.2.3.4'', ''good.example'', ''b@d.example'', ''myhost'']"
    by code_simp
  have b: "fst (addHost spec_util spec_IP ''b@d.example'' ''1.2.3.4'' (Some ''myhost'') new_Hosts)
       = Some InvalidName"
    by code_simp
  have l1: "lookup ?after ''good.example.''
       = Some \<lparr>name = Some ''good.example.'', inet4 = Some ''1.2.3.4'', inet6 = None,
               hostname = Some ''myhost.''\<rparr>"
    by code_simp
  have l2: "lookup ?after ''b@d.example.'' = None"
    by code_simp
  have l3: "lookup ?after ''myhost.'' = None"
    by code_simp
  from e hosts_fromString_lines [of spec_util spec_IP example_line new_Hosts]
  have "snd (hosts_line spec_util spec_IP example_line new_Hosts) = ?after"
    by simp
  with e f b l1 l2 l3 show ?thesis
    by (simp only:)
qed

section \<open>What a clone shares with its original\<close>

text \<open>
  C5. The claim is that \<open>clone\<close> copies every collection the object owns, so that no
  mutation of the clone shows in the original. In the code \<open>inject\<close> slices the two server
  arrays and the sort list and refills the key map, but assigns the search array itself:
  after \<^verbatim>\<open>a.setSearch('a')\<close> and \<^verbatim>\<open>c = a.clone()\<close> the fields \<open>search\<close> of \<open>a\<close> and \<open>c\<close> hold
  the same array, while the other four collections are distinct, and
  \<^verbatim>\<open>c.search.push('x.')\<close> changes what \<^verbatim>\<open>a.search\<close> shows.
\<close>

theorem clone_shares_search_array:
  "(let (a0, h0) = new_obj empty_store;
        (e, a, h1) = setSearch_obj spec_util ''a'' a0 h0;
        (c, h2) = clone_obj a h1;
        h3 = names_push (the (o_search c)) ''x.'' h2
    in o_search c = o_search a
       \<and> o_ns4 c \<noteq> o_ns4 a \<and> o_ns6 c \<noteq> o_ns6 a
       \<and> o_sortlist c \<noteq> o_sortlist a \<and> o_keys c \<noteq> o_keys a
       \<and> read_search h2 a = Some [''a.'']
       \<and> read_search h3 c = Some [''a.'', ''x.'']
       \<and> read_search h3 a = Some [''a.'', ''x.''])"
  by code_simp

end
